theory Spec2Isabelle
  imports Main "HOL-Library.Word"
begin

unbundle bit_operations_syntax

section \<open>Data model of \<^verbatim>\<open>support/n64/n64.cpp\<close>\<close>

type_synonym byte = "8 word"

datatype MemoryType = NONE | EEPROM_512 | EEPROM_2k | SRAM_32k | SRAM_96k | FLASH_128k

datatype CIC =
    CIC_NUS_6101 | CIC_NUS_6102 | CIC_NUS_7101 | CIC_NUS_7102 | CIC_NUS_6103
  | CIC_NUS_7103 | CIC_NUS_6105 | CIC_NUS_7105 | CIC_NUS_6106 | CIC_NUS_7106
  | CIC_NUS_8303 | CIC_NUS_8401 | CIC_NUS_5167 | CIC_NUS_DDUS

datatype SystemType = NTSC | PAL

datatype RomFormat = UNKNOWN | BIG_ENDIAN | BYTE_SWAPPED | LITTLE_ENDIAN

text \<open>The \<^verbatim>\<open>(uint32_t)\<close> casts of the enumerators, in declaration order from 0.\<close>

fun MemoryType_u32 :: "MemoryType \<Rightarrow> 32 word" where
  "MemoryType_u32 NONE = 0"
| "MemoryType_u32 EEPROM_512 = 1"
| "MemoryType_u32 EEPROM_2k = 2"
| "MemoryType_u32 SRAM_32k = 3"
| "MemoryType_u32 SRAM_96k = 4"
| "MemoryType_u32 FLASH_128k = 5"

fun CIC_u32 :: "CIC \<Rightarrow> 32 word" where
  "CIC_u32 CIC_NUS_6101 = 0"
| "CIC_u32 CIC_NUS_6102 = 1"
| "CIC_u32 CIC_NUS_7101 = 2"
| "CIC_u32 CIC_NUS_7102 = 3"
| "CIC_u32 CIC_NUS_6103 = 4"
| "CIC_u32 CIC_NUS_7103 = 5"
| "CIC_u32 CIC_NUS_6105 = 6"
| "CIC_u32 CIC_NUS_7105 = 7"
| "CIC_u32 CIC_NUS_6106 = 8"
| "CIC_u32 CIC_NUS_7106 = 9"
| "CIC_u32 CIC_NUS_8303 = 10"
| "CIC_u32 CIC_NUS_8401 = 11"
| "CIC_u32 CIC_NUS_5167 = 12"
| "CIC_u32 CIC_NUS_DDUS = 13"

fun SystemType_u32 :: "SystemType \<Rightarrow> 32 word" where
  "SystemType_u32 NTSC = 0"
| "SystemType_u32 PAL = 1"

definition bool_u32 :: "bool \<Rightarrow> 32 word" where
  "bool_u32 b = (if b then 1 else 0)"

text \<open>
  The locals \<^verbatim>\<open>save_type, system_type, cic, cpak, rpak, tpak, rtc\<close> that both resolvers
  fill in before pushing them to the configuration store.
\<close>

record profile =
  save_type :: MemoryType
  system_type :: SystemType
  cic :: CIC
  cpak :: bool
  rpak :: bool
  tpak :: bool
  rtc :: bool

section \<open>The outside world\<close>

text \<open>
  Modelled from the spec: the configuration store behind \<^verbatim>\<open>user_io_status_get\<close> and
  \<^verbatim>\<open>user_io_status_set\<close> (declared in \<^verbatim>\<open>user_io.h\<close>, which is not part of the
  sources at hand) is a set of addressable bit-fields. The fields this file names,
  \<^verbatim>\<open>[64]\<close>, \<^verbatim>\<open>[68:65]\<close>, \<^verbatim>\<open>[71]\<close> .. \<^verbatim>\<open>[74]\<close>, \<^verbatim>\<open>[77:75]\<close> and \<^verbatim>\<open>[80:79]\<close>, are
  pairwise disjoint bit ranges, so the store is a function from the field's name to
  its value.
\<close>

type_synonym status = "string \<Rightarrow> 32 word"

definition user_io_status_get :: "status \<Rightarrow> string \<Rightarrow> 32 word" where
  "user_io_status_get st field = st field"

text \<open>The lines written with \<^verbatim>\<open>printf\<close>, one constructor per format string.\<close>

datatype diag =
    FailedToOpenDataFile string
  | NoTagsFound
  | FoundRomEntry string
  | TagLine string
  | UnknownTag string
  | SettingsLine SystemType MemoryType CIC bool bool bool bool
  | AutoDetectOn
  | AutoDetectOff
  | FileToSend string nat byte
  | MustBeAtLeast4096
  | HeaderMD5 string
  | NoInfoForHeaderHash string
  | FileMD5 string
  | NoInfoForFileHash string
  | UnknownCICType "64 word"
  | UnknownCartID string
  | Done

text \<open>The two messages shown with \<^verbatim>\<open>Info\<close>.\<close>

datatype notice = UnknownCICNotice | UnknownCartIDNotice

text \<open>
  Every call that leaves \<^verbatim>\<open>n64.cpp\<close>, in the order the calls are made. The functions
  below return the events they cause together with the store they leave.
\<close>

datatype event =
    Printf diag
  | SetIndex byte
  | SetDownload bool
  | ProgressReset
  | ProgressLoading string nat nat
  | ProcessSS string
  | StatusSet string "32 word"
  | OpenTextReader string
  | FileTxData "byte list"
  | FileClose
  | FileMountSave string
  | Info notice

text \<open>
  A run of \<^verbatim>\<open>user_io_status_set\<close> calls: the store after them and the events they are.
\<close>

definition user_io_status_set :: "string \<Rightarrow> 32 word \<Rightarrow> status \<Rightarrow> status" where
  "user_io_status_set field v st = st(field := v)"

fun status_sets :: "(string \<times> 32 word) list \<Rightarrow> status \<Rightarrow> status" where
  "status_sets [] st = st"
| "status_sets ((field, v) # ws) st = status_sets ws (user_io_status_set field v st)"

definition set_events :: "(string \<times> 32 word) list \<Rightarrow> event list" where
  "set_events ws = map (\<lambda>(field, v). StatusSet field v) ws"

section \<open>The string hash\<close>

definition FNV_PRIME :: "64 word" where
  "FNV_PRIME = 0x100000001b3"

definition FNV_OFFSET_BASIS :: "64 word" where
  "FNV_OFFSET_BASIS = 0xcbf29ce484222325"

text \<open>
  \<^verbatim>\<open>while (uint8_t a = *(s++)) h = (h ^ a) * FNV_PRIME;\<close> on a C string: the loop stops
  at the first NUL, and the end of the list is the terminating NUL.
\<close>

fun fnv_hash_from :: "string \<Rightarrow> 64 word \<Rightarrow> 64 word" where
  "fnv_hash_from [] h = h"
| "fnv_hash_from (a # s) h =
     (if a = CHR 0x00 then h else fnv_hash_from s ((h XOR of_char a) * FNV_PRIME))"

definition fnv_hash :: "string \<Rightarrow> 64 word" where
  "fnv_hash s = fnv_hash_from s FNV_OFFSET_BASIS"

section \<open>The heuristic resolver\<close>

text \<open>The first \<^verbatim>\<open>switch (region_code)\<close>: the letters that mean PAL.\<close>

definition region_system_type :: "char \<Rightarrow> SystemType" where
  "region_system_type region_code =
     (if region_code \<in> set ''DFHILPSUWXY'' then PAL else NTSC)"

text \<open>
  \<^verbatim>\<open>switch (crc)\<close>: the entry gives the CIC and the system type it leaves;
  \<open>None\<close> is the \<^verbatim>\<open>default: return 1\<close>.
\<close>

definition cic_switch :: "64 word \<Rightarrow> SystemType \<Rightarrow> (CIC \<times> SystemType) option" where
  "cic_switch crc sys =
     (if crc = 0x000000a316adc55a \<or> crc = 0x000000039c981107 \<or> crc = 0x000000a30dacd530
         \<or> crc = 0x000000d2828281b0 \<or> crc = 0x0000009acc31e644
      then Some (if sys = NTSC then CIC_NUS_6102 else CIC_NUS_7101, sys)
      else if crc = 0x000000a405397b05 then Some (CIC_NUS_7102, PAL)
      else if crc = 0x000000a0f26f62fe then Some (CIC_NUS_6101, NTSC)
      else if crc = 0x000000a9229d7c45
      then Some (if sys = NTSC then CIC_NUS_6103 else CIC_NUS_7103, sys)
      else if crc = 0x000000f8b860ed00
      then Some (if sys = NTSC then CIC_NUS_6105 else CIC_NUS_7105, sys)
      else if crc = 0x000000ba5ba4b8cd
      then Some (if sys = NTSC then CIC_NUS_6106 else CIC_NUS_7106, sys)
      else if crc = 0x0000012daafc8aab then Some (CIC_NUS_5167, sys)
      else if crc = 0x000000a9df4b39e1 then Some (CIC_NUS_8303, sys)
      else if crc = 0x000000aa764e39e1 then Some (CIC_NUS_8401, sys)
      else if crc = 0x000000abb0b739e1 then Some (CIC_NUS_DDUS, sys)
      else None)"

text \<open>
  Dispatch on a hash \<open>h\<close> over cases labelled \<^verbatim>\<open>fnv_hash("...")\<close>: the case whose label
  equals \<open>h\<close> is taken.
\<close>

fun switch_fnv_hash :: "(string \<times> 'a) list \<Rightarrow> 64 word \<Rightarrow> 'a option" where
  "switch_fnv_hash [] h = None"
| "switch_fnv_hash ((s, e) # cases) h =
     (if h = fnv_hash s then Some e else switch_fnv_hash cases h)"

text \<open>
  What a \<^verbatim>\<open>case\<close> of \<^verbatim>\<open>switch (fnv_hash(id))\<close> leaves in
  \<^verbatim>\<open>save_type, cpak, rpak, tpak, rtc\<close>, which all start at \<^verbatim>\<open>NONE\<close> and \<^verbatim>\<open>false\<close>.
\<close>

type_synonym cart_entry = "MemoryType \<times> bool \<times> bool \<times> bool \<times> bool"

text \<open>
  The cases that depend on the cartridge identifier alone, in source order, under the
  source's own headings.
\<close>

text \<open>The cases under \<^verbatim>\<open>//512B EEPROM\<close>.\<close>

definition carts_eeprom_512 :: "(string \<times> cart_entry) list" where
  "carts_eeprom_512 = [
    (''NTW'', EEPROM_512, True, False, False, False),
    (''NHF'', EEPROM_512, False, False, False, False),
    (''NOS'', EEPROM_512, True, True, False, False),
    (''NTC'', EEPROM_512, False, True, False, False),
    (''NER'', EEPROM_512, False, True, False, False),
    (''NAG'', EEPROM_512, True, False, False, False),
    (''NAB'', EEPROM_512, True, True, False, False),
    (''NS3'', EEPROM_512, True, False, False, False),
    (''NTN'', EEPROM_512, False, False, False, False),
    (''NBN'', EEPROM_512, True, False, False, False),
    (''NBK'', EEPROM_512, False, True, False, False),
    (''NFH'', EEPROM_512, False, True, False, False),
    (''NMU'', EEPROM_512, True, True, False, False),
    (''NBC'', EEPROM_512, True, False, False, False),
    (''NBH'', EEPROM_512, False, True, False, False),
    (''NHA'', EEPROM_512, True, False, False, False),
    (''NBM'', EEPROM_512, True, False, False, False),
    (''NBV'', EEPROM_512, True, True, False, False),
    (''NBD'', EEPROM_512, False, True, False, False),
    (''NCT'', EEPROM_512, False, True, False, False),
    (''NCH'', EEPROM_512, False, True, False, False),
    (''NCG'', EEPROM_512, True, True, True, False),
    (''NP2'', EEPROM_512, True, True, False, False),
    (''NXO'', EEPROM_512, False, True, False, False),
    (''NCU'', EEPROM_512, True, False, False, False),
    (''NCX'', EEPROM_512, False, False, False, False),
    (''NDY'', EEPROM_512, True, True, False, False),
    (''NDQ'', EEPROM_512, True, False, False, False),
    (''NDR'', EEPROM_512, False, False, False, False),
    (''NN6'', EEPROM_512, False, False, False, False),
    (''NDU'', EEPROM_512, False, True, False, False),
    (''NJM'', EEPROM_512, False, False, False, False),
    (''NFW'', EEPROM_512, False, True, False, False),
    (''NF2'', EEPROM_512, False, True, False, False),
    (''NKA'', EEPROM_512, True, True, False, False),
    (''NFG'', EEPROM_512, True, True, False, False),
    (''NGL'', EEPROM_512, True, True, False, False),
    (''NGV'', EEPROM_512, False, False, False, False),
    (''NGE'', EEPROM_512, False, True, False, False),
    (''NHP'', EEPROM_512, False, False, False, False),
    (''NPG'', EEPROM_512, False, True, False, False),
    (''NIJ'', EEPROM_512, False, True, False, False),
    (''NIC'', EEPROM_512, False, True, False, False),
    (''NFY'', EEPROM_512, True, True, False, False),
    (''NKI'', EEPROM_512, True, False, False, False),
    (''NLL'', EEPROM_512, False, True, False, False),
    (''NLR'', EEPROM_512, False, True, False, False),
    (''NKT'', EEPROM_512, True, False, False, False),
    (''CLB'', EEPROM_512, False, True, False, False),
    (''NLB'', EEPROM_512, False, True, False, False),
    (''NMW'', EEPROM_512, False, True, False, False),
    (''NML'', EEPROM_512, False, True, True, False),
    (''NTM'', EEPROM_512, False, False, False, False),
    (''NMI'', EEPROM_512, False, True, False, False),
    (''NMG'', EEPROM_512, True, True, False, False),
    (''NMO'', EEPROM_512, False, False, False, False),
    (''NMS'', EEPROM_512, True, False, False, False),
    (''NMR'', EEPROM_512, True, True, False, False),
    (''NCR'', EEPROM_512, True, False, False, False),
    (''NEA'', EEPROM_512, False, False, False, False),
    (''NPW'', EEPROM_512, False, False, False, False),
    (''NPY'', EEPROM_512, False, True, False, False),
    (''NPT'', EEPROM_512, False, True, True, False),
    (''NRA'', EEPROM_512, True, True, False, False),
    (''NWQ'', EEPROM_512, True, True, False, False),
    (''NSU'', EEPROM_512, False, True, False, False),
    (''NSN'', EEPROM_512, True, True, False, False),
    (''NK2'', EEPROM_512, False, True, False, False),
    (''NSV'', EEPROM_512, False, True, False, False),
    (''NFX'', EEPROM_512, False, True, False, False),
    (''NS6'', EEPROM_512, False, True, False, False),
    (''NNA'', EEPROM_512, False, True, False, False),
    (''NRS'', EEPROM_512, False, True, False, False),
    (''NSW'', EEPROM_512, False, False, False, False),
    (''NSC'', EEPROM_512, False, False, False, False),
    (''NSA'', EEPROM_512, False, True, False, False),
    (''NB6'', EEPROM_512, True, False, True, False),
    (''NSS'', EEPROM_512, False, True, False, False),
    (''NTX'', EEPROM_512, False, True, False, False),
    (''NT6'', EEPROM_512, False, False, False, False),
    (''NTP'', EEPROM_512, False, False, False, False),
    (''NTJ'', EEPROM_512, False, True, False, False),
    (''NRC'', EEPROM_512, False, True, False, False),
    (''NTR'', EEPROM_512, True, True, False, False),
    (''NTB'', EEPROM_512, False, True, False, False),
    (''NGU'', EEPROM_512, False, True, False, False),
    (''NIR'', EEPROM_512, False, True, False, False),
    (''NVL'', EEPROM_512, False, True, False, False),
    (''NVY'', EEPROM_512, False, True, False, False),
    (''NWC'', EEPROM_512, False, True, False, False),
    (''NAD'', EEPROM_512, False, False, False, False),
    (''NWU'', EEPROM_512, False, False, False, False),
    (''NYK'', EEPROM_512, False, True, False, False),
    (''NMZ'', EEPROM_512, False, False, False, False)
  ]"

text \<open>The cases under \<^verbatim>\<open>//2KB EEPROM\<close>.\<close>

definition carts_eeprom_2k :: "(string \<times> cart_entry) list" where
  "carts_eeprom_2k = [
    (''NB7'', EEPROM_2k, False, True, False, False),
    (''NGT'', EEPROM_2k, True, True, False, False),
    (''NFU'', EEPROM_2k, False, True, False, False),
    (''NCW'', EEPROM_2k, False, True, False, False),
    (''NCZ'', EEPROM_2k, False, True, False, False),
    (''ND6'', EEPROM_2k, False, True, False, False),
    (''NDO'', EEPROM_2k, False, True, False, False),
    (''ND2'', EEPROM_2k, False, True, False, False),
    (''N3D'', EEPROM_2k, False, True, False, False),
    (''NMX'', EEPROM_2k, True, True, False, False),
    (''NGC'', EEPROM_2k, True, True, False, False),
    (''NIM'', EEPROM_2k, False, False, False, False),
    (''NNB'', EEPROM_2k, True, True, False, False),
    (''NMV'', EEPROM_2k, False, True, False, False),
    (''NM8'', EEPROM_2k, False, True, True, False),
    (''NEV'', EEPROM_2k, False, True, False, False),
    (''NPP'', EEPROM_2k, True, False, False, False),
    (''NUB'', EEPROM_2k, True, False, True, False),
    (''NPD'', EEPROM_2k, True, True, True, False),
    (''NRZ'', EEPROM_2k, False, True, False, False),
    (''NR7'', EEPROM_2k, False, False, True, False),
    (''NEP'', EEPROM_2k, False, True, False, False),
    (''NYS'', EEPROM_2k, False, True, False, False)
  ]"

text \<open>The cases under \<^verbatim>\<open>//32KB SRAM\<close>.\<close>

definition carts_sram_32k :: "(string \<times> cart_entry) list" where
  "carts_sram_32k = [
    (''NTE'', SRAM_32k, False, True, False, False),
    (''NVB'', SRAM_32k, False, True, False, False),
    (''NB5'', SRAM_32k, False, True, False, False),
    (''CFZ'', SRAM_32k, False, True, False, False),
    (''NFZ'', SRAM_32k, False, True, False, False),
    (''NSI'', SRAM_32k, True, False, False, False),
    (''NG6'', SRAM_32k, False, True, False, False),
    (''NGP'', SRAM_32k, True, False, False, False),
    (''NYW'', SRAM_32k, True, False, False, False),
    (''NHY'', SRAM_32k, True, True, False, False),
    (''NIB'', SRAM_32k, False, True, False, False),
    (''NPS'', SRAM_32k, True, True, False, False),
    (''NPA'', SRAM_32k, True, False, True, False),
    (''NP4'', SRAM_32k, True, False, False, False),
    (''NJ5'', SRAM_32k, True, False, False, False),
    (''NP6'', SRAM_32k, True, False, True, False),
    (''NPE'', SRAM_32k, True, False, False, False),
    (''NJG'', SRAM_32k, False, True, False, False),
    (''CZL'', SRAM_32k, False, True, False, False),
    (''NZL'', SRAM_32k, False, True, False, False),
    (''NKG'', SRAM_32k, True, True, False, False),
    (''NMF'', SRAM_32k, False, True, True, False),
    (''NRI'', SRAM_32k, True, False, False, False),
    (''NUT'', SRAM_32k, True, True, True, False),
    (''NUM'', SRAM_32k, False, True, True, False),
    (''NOB'', SRAM_32k, False, False, False, False),
    (''CPS'', SRAM_32k, False, False, True, False),
    (''NPM'', SRAM_32k, True, False, False, False),
    (''NRE'', SRAM_32k, False, True, False, False),
    (''NAL'', SRAM_32k, False, True, False, False),
    (''NT3'', SRAM_32k, True, False, False, False),
    (''NS4'', SRAM_32k, True, False, True, False),
    (''NA2'', SRAM_32k, True, True, False, False),
    (''NVP'', SRAM_32k, True, True, False, False),
    (''NWL'', SRAM_32k, False, True, False, False),
    (''NW2'', SRAM_32k, False, True, False, False),
    (''NWX'', SRAM_32k, True, True, False, False)
  ]"

text \<open>The cases under \<^verbatim>\<open>//96KB SRAM\<close>.\<close>

definition carts_sram_96k :: "(string \<times> cart_entry) list" where
  "carts_sram_96k = [
    (''CDZ'', SRAM_96k, False, True, False, False)
  ]"

text \<open>The cases under \<^verbatim>\<open>//128KB Flash\<close>.\<close>

definition carts_flash_128k :: "(string \<times> cart_entry) list" where
  "carts_flash_128k = [
    (''NCC'', FLASH_128k, False, True, False, False),
    (''NDA'', FLASH_128k, True, False, False, False),
    (''NAF'', FLASH_128k, True, False, False, True),
    (''NJF'', FLASH_128k, False, True, False, False),
    (''NKJ'', FLASH_128k, False, True, False, False),
    (''NZS'', FLASH_128k, False, True, False, False),
    (''NM6'', FLASH_128k, False, True, False, False),
    (''NCK'', FLASH_128k, False, True, False, False),
    (''NMQ'', FLASH_128k, False, True, False, False),
    (''NPN'', FLASH_128k, False, False, False, False),
    (''NPF'', FLASH_128k, False, False, False, False),
    (''NPO'', FLASH_128k, False, False, True, False),
    (''CP2'', FLASH_128k, False, False, True, False),
    (''NP3'', FLASH_128k, False, False, True, False),
    (''NRH'', FLASH_128k, False, True, False, False),
    (''NSQ'', FLASH_128k, False, True, False, False),
    (''NT9'', FLASH_128k, False, False, False, False),
    (''NW4'', FLASH_128k, True, True, False, False),
    (''NDP'', FLASH_128k, False, False, False, False)
  ]"

text \<open>The cases under \<^verbatim>\<open>//Controller Pak\<close>.\<close>

definition carts_controller_pak :: "(string \<times> cart_entry) list" where
  "carts_controller_pak = [
    (''NO7'', NONE, True, True, False, False),
    (''NAY'', NONE, True, False, False, False),
    (''NBS'', NONE, True, True, False, False),
    (''NBE'', NONE, True, True, False, False),
    (''NAS'', NONE, True, True, False, False),
    (''NAR'', NONE, True, True, False, False),
    (''NAC'', NONE, True, True, False, False),
    (''NAM'', NONE, True, True, False, False),
    (''N32'', NONE, True, True, False, False),
    (''NAH'', NONE, True, True, False, False),
    (''NLC'', NONE, True, True, False, False),
    (''NBJ'', NONE, True, False, False, False),
    (''NB4'', NONE, True, True, False, False),
    (''NBX'', NONE, True, True, False, False),
    (''NBQ'', NONE, True, True, False, False),
    (''NZO'', NONE, True, True, False, False),
    (''NNS'', NONE, True, True, False, False),
    (''NB8'', NONE, True, True, False, False),
    (''NBF'', NONE, True, True, False, False),
    (''NBP'', NONE, True, True, False, False),
    (''NBO'', NONE, True, False, False, False),
    (''NOW'', NONE, True, False, False, False),
    (''NBL'', NONE, True, True, False, False),
    (''NBY'', NONE, True, True, False, False),
    (''NB3'', NONE, True, True, False, False),
    (''NBU'', NONE, True, False, False, False),
    (''NCL'', NONE, True, True, False, False),
    (''NCD'', NONE, True, True, False, False),
    (''NTS'', NONE, True, False, False, False),
    (''NV2'', NONE, True, True, False, False),
    (''NPK'', NONE, True, False, False, False),
    (''NT4'', NONE, True, True, False, False),
    (''NDW'', NONE, True, True, False, False),
    (''NGA'', NONE, True, True, False, False),
    (''NDE'', NONE, True, True, False, False),
    (''NTA'', NONE, True, True, False, False),
    (''NDM'', NONE, True, False, False, False),
    (''NDH'', NONE, True, False, False, False),
    (''NDN'', NONE, True, True, False, False),
    (''NDZ'', NONE, True, True, False, False),
    (''NWI'', NONE, True, True, False, False),
    (''NST'', NONE, True, False, False, False),
    (''NET'', NONE, True, False, False, False),
    (''NEG'', NONE, True, True, False, False),
    (''NG2'', NONE, True, True, False, False),
    (''NHG'', NONE, True, False, False, False),
    (''NFR'', NONE, True, True, False, False),
    (''N8I'', NONE, True, False, False, False),
    (''N9F'', NONE, True, False, False, False),
    (''N7I'', NONE, True, False, False, False),
    (''NFS'', NONE, True, False, False, False),
    (''NFF'', NONE, True, True, False, False),
    (''NFD'', NONE, True, True, False, False),
    (''NFO'', NONE, True, True, False, False),
    (''NF9'', NONE, True, False, False, False),
    (''NG5'', NONE, True, True, False, False),
    (''NGX'', NONE, True, True, False, False),
    (''NGD'', NONE, True, True, False, False),
    (''NX3'', NONE, True, True, False, False),
    (''NX2'', NONE, True, False, False, False),
    (''NGM'', NONE, True, True, False, False),
    (''NGN'', NONE, True, False, False, False),
    (''NHS'', NONE, True, False, False, False),
    (''NM9'', NONE, True, False, False, False),
    (''NHC'', NONE, True, True, False, False),
    (''NHX'', NONE, True, False, False, False),
    (''NHK'', NONE, True, True, False, False),
    (''NHW'', NONE, True, True, False, False),
    (''NHV'', NONE, True, True, False, False),
    (''NHT'', NONE, True, True, False, False),
    (''NWB'', NONE, True, True, False, False),
    (''NWS'', NONE, True, False, False, False),
    (''NIS'', NONE, True, True, False, False),
    (''NJP'', NONE, True, False, False, False),
    (''NDS'', NONE, True, False, False, False),
    (''NJE'', NONE, True, False, False, False),
    (''NJL'', NONE, True, False, False, False),
    (''NMA'', NONE, True, False, False, False),
    (''NCO'', NONE, True, True, False, False),
    (''NGS'', NONE, True, False, False, False),
    (''NJ3'', NONE, True, False, False, False),
    (''N64'', NONE, True, True, False, False),
    (''NKK'', NONE, True, True, False, False),
    (''NLG'', NONE, True, True, False, False),
    (''N8M'', NONE, True, True, False, False),
    (''NMD'', NONE, True, True, False, False),
    (''NFL'', NONE, True, True, False, False),
    (''N2M'', NONE, True, True, False, False),
    (''N9M'', NONE, True, True, False, False),
    (''NMJ'', NONE, True, False, False, False),
    (''NMM'', NONE, True, False, False, False),
    (''NHM'', NONE, True, True, False, False),
    (''NWK'', NONE, True, True, False, False),
    (''NV3'', NONE, True, True, False, False),
    (''NAI'', NONE, True, False, False, False),
    (''NMB'', NONE, True, True, False, False),
    (''NBR'', NONE, True, True, False, False),
    (''NM4'', NONE, True, True, False, False),
    (''NMY'', NONE, True, True, False, False),
    (''NP9'', NONE, True, True, False, False),
    (''NH5'', NONE, True, False, False, False),
    (''NNM'', NONE, True, False, False, False),
    (''N9C'', NONE, True, True, False, False),
    (''NN2'', NONE, True, True, False, False),
    (''NXG'', NONE, True, False, False, False),
    (''NBA'', NONE, True, True, False, False),
    (''NB2'', NONE, True, True, False, False),
    (''NWZ'', NONE, True, True, False, False),
    (''NB9'', NONE, True, False, False, False),
    (''NJA'', NONE, True, True, False, False),
    (''N9B'', NONE, True, True, False, False),
    (''NNL'', NONE, True, True, False, False),
    (''NSO'', NONE, True, False, False, False),
    (''NBZ'', NONE, True, True, False, False),
    (''NSZ'', NONE, True, True, False, False),
    (''NBI'', NONE, True, True, False, False),
    (''NFB'', NONE, True, True, False, False),
    (''NQ8'', NONE, True, True, False, False),
    (''NQ9'', NONE, True, True, False, False),
    (''NQB'', NONE, True, True, False, False),
    (''NQC'', NONE, True, True, False, False),
    (''N9H'', NONE, True, True, False, False),
    (''NHO'', NONE, True, True, False, False),
    (''NHL'', NONE, True, True, False, False),
    (''NH9'', NONE, True, True, False, False),
    (''NNC'', NONE, True, True, False, False),
    (''NCE'', NONE, True, True, False, False),
    (''NOF'', NONE, True, True, False, False),
    (''NHN'', NONE, True, False, False, False),
    (''NOM'', NONE, True, False, False, False),
    (''NPC'', NONE, True, False, False, False),
    (''NYP'', NONE, True, True, False, False),
    (''NPX'', NONE, True, True, False, False),
    (''NPL'', NONE, True, False, False, False),
    (''NPU'', NONE, True, False, False, False),
    (''NKM'', NONE, True, False, False, False),
    (''NNR'', NONE, True, False, False, False),
    (''NPB'', NONE, True, True, False, False),
    (''NQK'', NONE, True, True, False, False),
    (''NQ2'', NONE, True, True, False, False),
    (''NKR'', NONE, True, False, False, False),
    (''NRP'', NONE, True, True, False, False),
    (''NRT'', NONE, True, False, False, False),
    (''NRX'', NONE, True, False, False, False),
    (''NY2'', NONE, True, False, False, False),
    (''NFQ'', NONE, True, True, False, False),
    (''NRV'', NONE, True, True, False, False),
    (''NRD'', NONE, True, True, False, False),
    (''N22'', NONE, True, True, False, False),
    (''NRO'', NONE, True, True, False, False),
    (''NRR'', NONE, True, True, False, False),
    (''NRK'', NONE, True, False, False, False),
    (''NR2'', NONE, True, True, False, False),
    (''NCS'', NONE, True, True, False, False),
    (''NDC'', NONE, True, True, False, False),
    (''NSH'', NONE, True, False, False, False),
    (''NSF'', NONE, True, True, False, False),
    (''NRU'', NONE, True, True, False, False),
    (''NSY'', NONE, True, False, False, False),
    (''NSD'', NONE, True, True, False, False),
    (''NSG'', NONE, True, False, False, False),
    (''NTO'', NONE, True, False, False, False),
    (''NS2'', NONE, True, False, False, False),
    (''NSK'', NONE, True, True, False, False),
    (''NDT'', NONE, True, True, False, False),
    (''NPR'', NONE, True, True, False, False),
    (''NIV'', NONE, True, True, False, False),
    (''NSL'', NONE, True, True, False, False),
    (''NR3'', NONE, True, True, False, False),
    (''NBW'', NONE, True, True, False, False),
    (''NSX'', NONE, True, True, False, False),
    (''NSP'', NONE, True, True, False, False),
    (''NPZ'', NONE, True, True, False, False),
    (''NL2'', NONE, True, True, False, False),
    (''NR6'', NONE, True, True, False, False),
    (''NTT'', NONE, True, False, False, False),
    (''NTF'', NONE, True, True, False, False),
    (''NTQ'', NONE, True, True, False, False),
    (''N3T'', NONE, True, True, False, False),
    (''NGB'', NONE, True, True, False, False),
    (''NGR'', NONE, True, True, False, False),
    (''NTH'', NONE, True, True, False, False),
    (''N3P'', NONE, True, True, False, False),
    (''NTU'', NONE, True, False, False, False),
    (''NRW'', NONE, True, True, False, False),
    (''NT2'', NONE, True, True, False, False),
    (''NTK'', NONE, True, True, False, False),
    (''NSB'', NONE, True, True, False, False),
    (''NV8'', NONE, True, True, False, False),
    (''NVG'', NONE, True, True, False, False),
    (''NVC'', NONE, True, False, False, False),
    (''NVR'', NONE, True, False, False, False),
    (''NWV'', NONE, True, True, False, False),
    (''NWM'', NONE, True, True, False, False),
    (''NW3'', NONE, True, True, False, False),
    (''NWN'', NONE, True, True, False, False),
    (''NWW'', NONE, True, True, False, False),
    (''NTI'', NONE, True, True, False, False),
    (''NWG'', NONE, True, False, False, False),
    (''NW8'', NONE, True, False, False, False),
    (''NWD'', NONE, True, True, False, False),
    (''NWP'', NONE, True, True, False, False),
    (''NJ2'', NONE, True, False, False, False),
    (''N8W'', NONE, True, False, False, False),
    (''NWO'', NONE, True, True, False, False),
    (''NXF'', NONE, True, True, False, False)
  ]"

text \<open>The cases under \<^verbatim>\<open>//Rumble Pak\<close>.\<close>

definition carts_rumble_pak :: "(string \<times> cart_entry) list" where
  "carts_rumble_pak = [
    (''NJQ'', NONE, False, True, False, False),
    (''NCB'', NONE, False, True, False, False),
    (''NDF'', NONE, False, True, False, False),
    (''NKE'', NONE, False, True, False, False),
    (''NMT'', NONE, False, True, False, False),
    (''NM3'', NONE, False, True, False, False),
    (''NRG'', NONE, False, True, False, False),
    (''NOH'', NONE, False, True, True, False),
    (''NWF'', NONE, False, True, False, False)
  ]"


definition cart_table :: "(string \<times> cart_entry) list" where
  "cart_table = carts_eeprom_512 @ carts_eeprom_2k @ carts_sram_32k @ carts_sram_96k
     @ carts_flash_128k @ carts_controller_pak @ carts_rumble_pak"

text \<open>The cases that also look at the region code and the revision.\<close>

definition cart_special :: "64 word \<Rightarrow> char \<Rightarrow> byte \<Rightarrow> cart_entry option" where
  "cart_special h region_code revision =
     (if h = fnv_hash ''N3H''
      then Some (if region_code = CHR ''J'' then (SRAM_32k, False, False, False, False)
                 else (NONE, True, True, False, False))
      else if h = fnv_hash ''ND3''
      then Some (if region_code = CHR ''J'' then (EEPROM_2k, False, True, False, False)
                 else (NONE, True, False, False, False))
      else if h = fnv_hash ''ND4''
      then Some (if region_code = CHR ''J'' then (NONE, False, True, False, False)
                 else (NONE, True, False, False, False))
      else if h = fnv_hash ''NSM''
      then Some (EEPROM_512, False, region_code = CHR ''J'' \<and> revision = 3, False, False)
      else if h = fnv_hash ''NWR''
      then Some (EEPROM_512, True, region_code = CHR ''J'' \<and> revision = 2, False, False)
      else if h = fnv_hash ''NK4''
      then Some (if region_code = CHR ''J'' \<and> revision < 2
                 then (SRAM_32k, False, True, False, False)
                 else (EEPROM_2k, False, True, False, False))
      else if h = fnv_hash ''NDK''
      then Some (if region_code = CHR ''J'' then (EEPROM_512, False, False, False, False)
                 else (NONE, False, False, False, False))
      else if h = fnv_hash ''NWT''
      then Some (if region_code = CHR ''J'' then (EEPROM_512, False, False, False, False)
                 else (NONE, True, False, False, False))
      else None)"

text \<open>
  \<^verbatim>\<open>switch (fnv_hash(id))\<close>: the case labels are the hashes of the identifiers, and the
  value switched on is the hash of \<^verbatim>\<open>id\<close>. \<open>None\<close> is the \<^verbatim>\<open>default: return 2\<close>.
\<close>

definition cart_switch :: "string \<Rightarrow> char \<Rightarrow> byte \<Rightarrow> cart_entry option" where
  "cart_switch cid region_code revision =
     (case switch_fnv_hash cart_table (fnv_hash cid) of
        Some e \<Rightarrow> Some e
      | None \<Rightarrow> cart_special (fnv_hash cid) region_code revision)"

text \<open>
  \<^verbatim>\<open>detect_rom_settings_from_first_chunk\<close>: the return code, the store it leaves and the
  events it causes. \<^verbatim>\<open>AutoDetect::ON\<close> is the value 0 of the field \<^verbatim>\<open>[64]\<close>.
\<close>

definition detect_rom_settings_from_first_chunk ::
  "string \<Rightarrow> char \<Rightarrow> byte \<Rightarrow> 64 word \<Rightarrow> status \<Rightarrow> byte \<times> status \<times> event list" where
  "detect_rom_settings_from_first_chunk cid region_code revision crc st =
     (if user_io_status_get st ''[64]'' \<noteq> 0 then (0, st, [Printf AutoDetectOff])
      else case cic_switch crc (region_system_type region_code) of
        None \<Rightarrow> (1, st, [])
      | Some (c, sys) \<Rightarrow>
          (let w1 = [(''[80:79]'', SystemType_u32 sys), (''[68:65]'', CIC_u32 c)];
               e1 = [Printf (SettingsLine sys NONE c False False False False),
                     Printf AutoDetectOn] @ set_events w1;
               st1 = status_sets w1 st
           in case cart_switch cid region_code revision of
                None \<Rightarrow> (2, st1, e1)
              | Some (sv, cp, rp, tp, rt) \<Rightarrow>
                  (let w2 = [(''[71]'', bool_u32 cp), (''[72]'', bool_u32 rp),
                             (''[73]'', bool_u32 tp), (''[74]'', bool_u32 rt),
                             (''[77:75]'', MemoryType_u32 sv)]
                   in (0, status_sets w2 st1, e1 @ set_events w2))))"

section \<open>Format detection and normalisation\<close>

text \<open>
  \<^verbatim>\<open>*(uint32_t*)data\<close> and \<^verbatim>\<open>((uint32_t*)buf)[i]\<close> on the little-endian host the
  source's comments assume: the 32-bit value of the four bytes from offset \<open>off\<close>.
\<close>

definition read_u32 :: "byte list \<Rightarrow> nat \<Rightarrow> 32 word" where
  "read_u32 data off =
     ucast (data ! off) OR push_bit 8 (ucast (data ! (off + 1)))
       OR push_bit 16 (ucast (data ! (off + 2))) OR push_bit 24 (ucast (data ! (off + 3)))"

definition detectRomFormat :: "byte list \<Rightarrow> RomFormat" where
  "detectRomFormat data =
     (let val = read_u32 data 0
      in if val = 0x40123780 \<or> val = 0x40072780 then BIG_ENDIAN
         else if val = 0x12408037 \<or> val = 0x07408027 then BYTE_SWAPPED
         else if val = 0x80371240 \<or> val = 0x80270740 then LITTLE_ENDIAN
         else UNKNOWN)"

text \<open>
  The two loops of \<^verbatim>\<open>normalizeData\<close>. The pointer \<^verbatim>\<open>data\<close> advances with \<open>i\<close>, so the
  bytes touched are \<open>data[i]\<close> .. \<open>data[i + 1]\<close> (or \<open>data[i + 3]\<close>) of the buffer the
  caller passed. An access outside that buffer is \<open>None\<close>.
\<close>

function swap_pairs_loop :: "nat \<Rightarrow> nat \<Rightarrow> byte list \<Rightarrow> byte list option" where
  "swap_pairs_loop i sz data =
     (if i < sz
      then if i + 1 < length data
           then (let c0 = data ! i; c1 = data ! (i + 1)
                 in swap_pairs_loop (i + 2) sz (data[i := c1, i + 1 := c0]))
           else None
      else Some data)"
  by pat_completeness auto
termination
  by (relation "measure (\<lambda>(i, sz, data). sz - i)") auto

function reverse_quads_loop :: "nat \<Rightarrow> nat \<Rightarrow> byte list \<Rightarrow> byte list option" where
  "reverse_quads_loop i sz data =
     (if i < sz
      then if i + 3 < length data
           then (let c0 = data ! i; c1 = data ! (i + 1); c2 = data ! (i + 2); c3 = data ! (i + 3)
                 in reverse_quads_loop (i + 4) sz
                      (data[i := c3, i + 1 := c2, i + 2 := c1, i + 3 := c0]))
           else None
      else Some data)"
  by pat_completeness auto
termination
  by (relation "measure (\<lambda>(i, sz, data). sz - i)") auto

fun normalizeData :: "byte list \<Rightarrow> nat \<Rightarrow> RomFormat \<Rightarrow> byte list option" where
  "normalizeData data sz BYTE_SWAPPED = swap_pairs_loop 0 sz data"
| "normalizeData data sz LITTLE_ENDIAN = reverse_quads_loop 0 sz data"
| "normalizeData data sz BIG_ENDIAN = Some data"
| "normalizeData data sz UNKNOWN = Some data"

text \<open>The granularity of the transform of each format.\<close>

fun granularity :: "RomFormat \<Rightarrow> nat" where
  "granularity BYTE_SWAPPED = 2"
| "granularity LITTLE_ENDIAN = 4"
| "granularity BIG_ENDIAN = 1"
| "granularity UNKNOWN = 1"

text \<open>
  The same transforms on a list as a whole: what the loops compute on a buffer of
  whole groups, used to state results about them.
\<close>

fun swap_pairs :: "'a list \<Rightarrow> 'a list" where
  "swap_pairs (c0 # c1 # rest) = c1 # c0 # swap_pairs rest"
| "swap_pairs rest = rest"

fun reverse_quads :: "'a list \<Rightarrow> 'a list" where
  "reverse_quads (c0 # c1 # c2 # c3 # rest) = c3 # c2 # c1 # c0 # reverse_quads rest"
| "reverse_quads rest = rest"

fun normalize_whole :: "RomFormat \<Rightarrow> byte list \<Rightarrow> byte list" where
  "normalize_whole BYTE_SWAPPED xs = swap_pairs xs"
| "normalize_whole LITTLE_ENDIAN xs = reverse_quads xs"
| "normalize_whole BIG_ENDIAN xs = xs"
| "normalize_whole UNKNOWN xs = xs"

section \<open>The tag database\<close>

text \<open>\<^verbatim>\<open>tolower\<close> in the C locale, and \<^verbatim>\<open>normalizeString\<close>, which applies it in place.\<close>

definition tolower :: "char \<Rightarrow> char" where
  "tolower c =
     (if 65 \<le> (of_char c :: nat) \<and> (of_char c :: nat) \<le> 90
      then char_of ((of_char c :: nat) + 32) else c)"

definition normalizeString :: "string \<Rightarrow> string" where
  "normalizeString s = map tolower s"

text \<open>
  The cases of the \<^verbatim>\<open>switch (fnv_hash(tag))\<close>, in source order: the label's string and
  what the case does to the locals.
\<close>

definition tag_cases :: "(string \<times> (profile \<Rightarrow> profile)) list" where
  "tag_cases = [
    (''eeprom512'', save_type_update (\<lambda>_. EEPROM_512)),
    (''eeprom2k'', save_type_update (\<lambda>_. EEPROM_2k)),
    (''sram32k'', save_type_update (\<lambda>_. SRAM_32k)),
    (''sram96k'', save_type_update (\<lambda>_. SRAM_96k)),
    (''flash128k'', save_type_update (\<lambda>_. FLASH_128k)),
    (''ntsc'', system_type_update (\<lambda>_. NTSC)),
    (''pal'', system_type_update (\<lambda>_. PAL)),
    (''cpak'', cpak_update (\<lambda>_. True)),
    (''rpak'', rpak_update (\<lambda>_. True)),
    (''tpak'', tpak_update (\<lambda>_. True)),
    (''rtc'', rtc_update (\<lambda>_. True)),
    (''cic6101'', cic_update (\<lambda>_. CIC_NUS_6101)),
    (''cic6102'', cic_update (\<lambda>_. CIC_NUS_6102)),
    (''cic6103'', cic_update (\<lambda>_. CIC_NUS_6103)),
    (''cic6105'', cic_update (\<lambda>_. CIC_NUS_6105)),
    (''cic6106'', cic_update (\<lambda>_. CIC_NUS_6106)),
    (''cic7101'', cic_update (\<lambda>_. CIC_NUS_7101)),
    (''cic7102'', cic_update (\<lambda>_. CIC_NUS_7102)),
    (''cic7103'', cic_update (\<lambda>_. CIC_NUS_7103)),
    (''cic7105'', cic_update (\<lambda>_. CIC_NUS_7105)),
    (''cic7106'', cic_update (\<lambda>_. CIC_NUS_7106)),
    (''cic8303'', cic_update (\<lambda>_. CIC_NUS_8303)),
    (''cic8401'', cic_update (\<lambda>_. CIC_NUS_8401)),
    (''cic5167'', cic_update (\<lambda>_. CIC_NUS_5167)),
    (''cicDDUS'', cic_update (\<lambda>_. CIC_NUS_DDUS))
  ]"

text \<open>
  One round of the \<^verbatim>\<open>strtok\<close> loop: the tag is printed, lower-cased in place, hashed and
  dispatched; the \<^verbatim>\<open>default\<close> case prints the lower-cased tag.
\<close>

definition apply_tag :: "string \<Rightarrow> profile \<Rightarrow> profile \<times> event list" where
  "apply_tag tag p =
     (let t = normalizeString tag
      in case switch_fnv_hash tag_cases (fnv_hash t) of
           Some effect \<Rightarrow> (effect p, [Printf (TagLine tag)])
         | None \<Rightarrow> (p, [Printf (TagLine tag), Printf (UnknownTag t)]))"

fun apply_tags :: "string list \<Rightarrow> profile \<Rightarrow> profile \<times> event list" where
  "apply_tags [] p = (p, [])"
| "apply_tags (tag # tags) p =
     (let (p1, e1) = apply_tag tag p; (p2, e2) = apply_tags tags p1 in (p2, e1 @ e2))"

text \<open>
  The tokens \<^verbatim>\<open>strtok(tags, "|")\<close> and its continuations return: the maximal runs
  without the separator, empty runs skipped. \<open>cur\<close> is the token being read.
\<close>

fun strtok_from :: "string \<Rightarrow> string \<Rightarrow> string list" where
  "strtok_from cur [] = (if cur = [] then [] else [cur])"
| "strtok_from cur (c # s) =
     (if c = CHR ''|''
      then (if cur = [] then strtok_from [] s else cur # strtok_from [] s)
      else strtok_from (cur @ [c]) s)"

definition strtok_all :: "string \<Rightarrow> string list" where
  "strtok_all tags = strtok_from [] tags"

text \<open>
  \<^verbatim>\<open>sscanf(line, "%*s %s", tags)\<close>: white space is skipped, a first word is read and
  dropped, white space is skipped, and the second word is stored. \<open>None\<close> stands for
  every result other than 1, which is the case when there is no second word.
  The source stores the word and its terminating NUL in \<^verbatim>\<open>char tags[128]\<close> with an
  unbounded \<^verbatim>\<open>%s\<close>: a word of 128 characters or more overruns the array. The function
  below returns the word whatever its length; \<open>tags_fit\<close>, further down, says that no
  line of a data file has such a word, and the results about runs that search the
  data files assume it.
\<close>

definition isspace :: "char \<Rightarrow> bool" where
  "isspace c = (c \<in> set [CHR '' '', CHR 0x09, CHR 0x0A, CHR 0x0B, CHR 0x0C, CHR 0x0D])"

definition sscanf_second_word :: "string \<Rightarrow> string option" where
  "sscanf_second_word line =
     (case dropWhile isspace line of
        [] \<Rightarrow> None
      | w1 \<Rightarrow>
         (case dropWhile isspace (dropWhile (\<lambda>c. \<not> isspace c) w1) of
            [] \<Rightarrow> None
          | w2 \<Rightarrow> Some (takeWhile (\<lambda>c. \<not> isspace c) w2)))"

text \<open>The initial values of the locals of \<^verbatim>\<open>detect_rom_settings_in_db\<close>.\<close>

definition default_profile :: profile where
  "default_profile =
     \<lparr>save_type = NONE, system_type = NTSC, cic = CIC_NUS_6102,
      cpak = False, rpak = False, tpak = False, rtc = False\<rparr>"

definition profile_writes :: "profile \<Rightarrow> (string \<times> 32 word) list" where
  "profile_writes p =
     [(''[80:79]'', SystemType_u32 (system_type p)), (''[68:65]'', CIC_u32 (cic p)),
      (''[71]'', bool_u32 (cpak p)), (''[72]'', bool_u32 (rpak p)),
      (''[73]'', bool_u32 (tpak p)), (''[74]'', bool_u32 (rtc p)),
      (''[77:75]'', MemoryType_u32 (save_type p))]"

text \<open>
  The \<^verbatim>\<open>while ((line = FileReadLine(&reader)))\<close> loop over the lines of one data file.
  \<^verbatim>\<open>strncmp(lookup_hash, line, 32)\<close> compares the first 32 characters of two C strings.
  The result is whether a line was used, the store left and the events caused.
\<close>

fun scan_lines :: "string \<Rightarrow> string list \<Rightarrow> status \<Rightarrow> bool \<times> status \<times> event list" where
  "scan_lines lookup_hash [] st = (False, st, [])"
| "scan_lines lookup_hash (line # lines) st =
     (if take 32 lookup_hash \<noteq> take 32 line then scan_lines lookup_hash lines st
      else case sscanf_second_word line of
        None \<Rightarrow>
          (let (found, st1, e1) = scan_lines lookup_hash lines st
           in (found, st1, Printf NoTagsFound # e1))
      | Some tags \<Rightarrow>
          (let (p, e_tags) = apply_tags (strtok_all tags) default_profile;
               e1 = [Printf (FoundRomEntry line)] @ e_tags
                    @ [Printf (SettingsLine (system_type p) (save_type p) (cic p)
                                 (cpak p) (rpak p) (tpak p) (rtc p))]
           in if user_io_status_get st ''[64]'' = 0
              then (True, status_sets (profile_writes p) st,
                    e1 @ [Printf AutoDetectOn] @ set_events (profile_writes p))
              else (True, st, e1 @ [Printf AutoDetectOff])))"

text \<open>
  The files the program can open: the ROM images by name (\<^verbatim>\<open>FileOpen\<close>) and the data
  files in the home directory by name (\<^verbatim>\<open>FileOpenTextReader\<close>), the latter as the
  lines \<^verbatim>\<open>FileReadLine\<close> returns. \<open>None\<close> is a file that cannot be opened.
\<close>

record env =
  rom_files :: "string \<Rightarrow> byte list option"
  data_files :: "string \<Rightarrow> string list option"

definition detect_rom_settings_in_db ::
  "env \<Rightarrow> string \<Rightarrow> string \<Rightarrow> status \<Rightarrow> bool \<times> status \<times> event list" where
  "detect_rom_settings_in_db fs lookup_hash db_file_name st =
     (case data_files fs db_file_name of
        None \<Rightarrow> (False, st, [OpenTextReader db_file_name,
                              Printf (FailedToOpenDataFile db_file_name)])
      | Some lines \<Rightarrow>
          (let (found, st1, e1) = scan_lines lookup_hash lines st
           in (found, st1, OpenTextReader db_file_name # e1)))"

definition DB_FILE_NAMES :: "string list" where
  "DB_FILE_NAMES = [''N64-database.txt'', ''N64-database_user.txt'']"

fun detect_in_files ::
  "env \<Rightarrow> string \<Rightarrow> string list \<Rightarrow> status \<Rightarrow> bool \<times> status \<times> event list" where
  "detect_in_files fs lookup_hash [] st = (False, st, [])"
| "detect_in_files fs lookup_hash (db_file_name # names) st =
     (let (found, st1, e1) = detect_rom_settings_in_db fs lookup_hash db_file_name st
      in if found then (True, st1, e1)
         else (let (found2, st2, e2) = detect_in_files fs lookup_hash names st1
               in (found2, st2, e1 @ e2)))"

definition detect_rom_settings_in_dbs ::
  "env \<Rightarrow> string \<Rightarrow> status \<Rightarrow> bool \<times> status \<times> event list" where
  "detect_rom_settings_in_dbs fs lookup_hash st =
     detect_in_files fs lookup_hash DB_FILE_NAMES st"

text \<open>
  The bound of \<^verbatim>\<open>char tags[128]\<close>: a line's second word, with its terminating NUL, fits
  the array when it has fewer than 128 characters. \<open>tags_fit\<close> holds of a file system in
  which every line of the data files the program opens has a second word that fits
  (or none). On a line that matches the hash and whose second word does not fit, the
  source writes past the array, which C leaves undefined.
\<close>

definition tag_word_fits :: "string \<Rightarrow> bool" where
  "tag_word_fits line =
     (case sscanf_second_word line of None \<Rightarrow> True | Some word \<Rightarrow> length word < 128)"

definition tags_fit :: "env \<Rightarrow> bool" where
  "tags_fit fs =
     list_all (\<lambda>db_file_name. case data_files fs db_file_name of
                  None \<Rightarrow> True
                | Some lines \<Rightarrow> list_all tag_word_fits lines) DB_FILE_NAMES"

section \<open>The ingestion pipeline\<close>

text \<open>
  The hash of \<^verbatim>\<open>lib/md5/md5.h\<close> is not part of the sources at hand; its three
  functions are parameters of the pipeline. A context is a plain value, so the
  \<^verbatim>\<open>memcpy\<close> of a context is a second value: \<^verbatim>\<open>MD5Init\<close> sets a context,
  \<^verbatim>\<open>MD5Update\<close> feeds bytes to the context it is given, and \<^verbatim>\<open>MD5Final\<close> writes the
  digest and leaves the context it was given in some final state.
\<close>

record 'c md5_ops =
  MD5Init :: 'c
  MD5Update :: "'c \<Rightarrow> byte list \<Rightarrow> 'c"
  MD5Final :: "'c \<Rightarrow> byte list \<times> 'c"

text \<open>\<^verbatim>\<open>sprintf(p, "%02x", in[i])\<close> for the 16 bytes of a digest.\<close>

definition hex_digit :: "nat \<Rightarrow> char" where
  "hex_digit n = ''0123456789abcdef'' ! (n mod 16)"

definition hex_byte :: "byte \<Rightarrow> string" where
  "hex_byte b = [hex_digit (unat b div 16), hex_digit (unat b mod 16)]"

definition md5_to_hex :: "byte list \<Rightarrow> string" where
  "md5_to_hex digest = concat (map hex_byte (take 16 digest))"

text \<open>
  The locals of \<^verbatim>\<open>n64_rom_tx\<close> that the loop changes, the static \<^verbatim>\<open>buf\<close>, the
  configuration store \<open>cfg\<close> and the events so far, \<open>out\<close>.
\<close>

record 'c tx_state =
  bytes2send :: nat
  is_first_chunk :: bool
  rom_found_in_db :: bool
  rom_format :: RomFormat
  ctx :: 'c
  ipl3_crc :: "64 word"
  cart_id :: string
  region_code :: char
  revision :: byte
  buf :: "byte list"
  cfg :: status
  out :: "event list"

text \<open>
  \<^verbatim>\<open>FileReadAdv(&f, buf, chunk)\<close>: the next \<open>n\<close> bytes of the file, from position \<open>pos\<close>,
  overwrite the start of the buffer.
\<close>

definition FileReadAdv :: "byte list \<Rightarrow> nat \<Rightarrow> nat \<Rightarrow> byte list \<Rightarrow> byte list" where
  "FileReadAdv fdata pos n b = take n (drop pos fdata) @ drop n b"

text \<open>
  \<^verbatim>\<open>for (i = 0x40 / 4; i < 0x1000 / 4; i++) ipl3_crc += ((uint32_t*)buf)[i]\<close>, each
  32-bit word widened to 64 bits before it is added.
\<close>

definition add_ipl3_words :: "byte list \<Rightarrow> 64 word \<Rightarrow> 64 word" where
  "add_ipl3_words b crc = foldl (\<lambda>acc i. acc + ucast (read_u32 b (4 * i))) crc [16..<1024]"

text \<open>A \<^verbatim>\<open>char\<close> array read as a C string: the characters before the first NUL.\<close>

definition c_string :: "byte list \<Rightarrow> string" where
  "c_string bs = takeWhile (\<lambda>c. c \<noteq> CHR 0x00) (map (\<lambda>b. char_of (unat b)) bs)"

text \<open>
  The block under the second \<^verbatim>\<open>if (is_first_chunk)\<close>: the context is copied, the copy is
  finalised for the header digest, the data files are searched for it, and on a miss
  the header evidence is read from the normalised buffer.
\<close>

definition header_lookup :: "'c md5_ops \<Rightarrow> env \<Rightarrow> 'c tx_state \<Rightarrow> 'c tx_state" where
  "header_lookup ops fs s =
     (let ctx_header = ctx s;
          (md5, ctx_header_final) = MD5Final ops ctx_header;
          md5_hex = md5_to_hex md5;
          (found, st1, e1) = detect_rom_settings_in_dbs fs md5_hex (cfg s);
          s1 = s\<lparr>rom_found_in_db := found, cfg := st1,
                 out := out s @ [Printf (HeaderMD5 md5_hex)] @ e1\<rparr>
      in if found then s1
         else s1\<lparr>out := out s1 @ [Printf (NoInfoForHeaderHash md5_hex)],
                 ipl3_crc := add_ipl3_words (buf s) (ipl3_crc s),
                 cart_id := c_string (take 3 (drop 0x3b (buf s))),
                 region_code := char_of (unat (buf s ! 0x3e)),
                 revision := buf s ! 0x3f\<rparr>)"

text \<open>
  The two ways the loop body stops the function: the early \<^verbatim>\<open>return 0\<close>, and an access
  outside \<^verbatim>\<open>buf\<close>, which C leaves undefined.
\<close>

datatype tx_stop = SourceTooShort | AccessOutsideBuffer

text \<open>One round of \<^verbatim>\<open>while (bytes2send)\<close>, entered with \<open>bytes2send s > 0\<close>.\<close>

definition tx_chunk ::
  "'c md5_ops \<Rightarrow> env \<Rightarrow> string \<Rightarrow> byte list \<Rightarrow> 'c tx_state
     \<Rightarrow> (tx_stop \<times> 'c tx_state) + 'c tx_state" where
  "tx_chunk ops fs name fdata s =
     (let chunk = (if bytes2send s > 4096 then 4096 else bytes2send s);
          s1 = s\<lparr>buf := FileReadAdv fdata (length fdata - bytes2send s) chunk (buf s)\<rparr>
      in if is_first_chunk s \<and> chunk < 4096
         then Inl (SourceTooShort, s1\<lparr>out := out s1 @ [Printf MustBeAtLeast4096]\<rparr>)
         else
          (let s2 = (if is_first_chunk s then s1\<lparr>rom_format := detectRomFormat (buf s1)\<rparr>
                     else s1)
           in case normalizeData (buf s2) chunk (rom_format s2) of
                None \<Rightarrow> Inl (AccessOutsideBuffer, s2)
              | Some normalized \<Rightarrow>
                 (let s3 = s2\<lparr>buf := normalized,
                              ctx := MD5Update ops (ctx s2) (take chunk normalized)\<rparr>;
                      s4 = (if is_first_chunk s then header_lookup ops fs s3 else s3)
                  in Inr (s4\<lparr>out := out s4 @ [FileTxData (take chunk (buf s4)),
                                   ProgressLoading name (length fdata - bytes2send s)
                                     (length fdata)],
                               bytes2send := bytes2send s - chunk,
                               is_first_chunk := False\<rparr>))))"

function tx_loop ::
  "'c md5_ops \<Rightarrow> env \<Rightarrow> string \<Rightarrow> byte list \<Rightarrow> 'c tx_state
     \<Rightarrow> (tx_stop \<times> 'c tx_state) + 'c tx_state" where
  "tx_loop ops fs name fdata s =
     (if bytes2send s = 0 then Inr s
      else case tx_chunk ops fs name fdata s of
             Inl stop \<Rightarrow> Inl stop
           | Inr s1 \<Rightarrow> tx_loop ops fs name fdata s1)"
  by pat_completeness auto
termination
proof (relation "measure (\<lambda>(ops, fs, name, fdata, s). bytes2send s)")
  show "wf (measure (\<lambda>(ops :: 'c md5_ops, fs :: env, name :: string, fdata :: byte list,
                        s :: 'c tx_state). bytes2send s))"
    by simp
next
  fix ops :: "'c md5_ops" and fs :: env and name :: string and fdata :: "byte list"
    and s s1 :: "'c tx_state"
  assume "bytes2send s \<noteq> 0" and "tx_chunk ops fs name fdata s = Inr s1"
  then have "bytes2send s1 < bytes2send s"
    by (auto simp: tx_chunk_def Let_def split: if_splits option.splits)
  then show "((ops, fs, name, fdata, s1), (ops, fs, name, fdata, s)) \<in>
               measure (\<lambda>(ops, fs, name, fdata, s). bytes2send s)"
    by simp
qed

text \<open>
  What \<^verbatim>\<open>n64_rom_tx\<close> leaves: the value returned (\<open>None\<close> when the run made an access
  outside \<^verbatim>\<open>buf\<close>), the configuration store, the static buffer and the events, in
  order.
\<close>

record tx_result =
  returned :: "int option"
  final_cfg :: status
  final_buf :: "byte list"
  events :: "event list"

text \<open>The code after the loop, from the second \<^verbatim>\<open>MD5Final\<close> to \<^verbatim>\<open>return 1\<close>.\<close>

definition tx_finish :: "'c md5_ops \<Rightarrow> env \<Rightarrow> string \<Rightarrow> 'c tx_state \<Rightarrow> tx_result" where
  "tx_finish ops fs name s =
     (let (md5, ctx_final) = MD5Final ops (ctx s);
          md5_hex = md5_to_hex md5;
          o1 = out s @ [Printf (FileMD5 md5_hex)];
          (found, st1, o2) =
             (if rom_found_in_db s then (True, cfg s, o1)
              else (let (f, st, e) = detect_rom_settings_in_dbs fs md5_hex (cfg s)
                    in (f, st, o1 @ e @ (if f then [] else [Printf (NoInfoForFileHash md5_hex)]))));
          (detection_error, st2, o3) =
             (if found then (0, st1, o2)
              else (let (err, st, e) =
                          detect_rom_settings_from_first_chunk (cart_id s) (region_code s)
                            (revision s) (ipl3_crc s) st1
                    in (err, st, o2 @ e
                          @ (if err = 1 then [Printf (UnknownCICType (ipl3_crc s))]
                             else if err = 2 then [Printf (UnknownCartID (cart_id s))]
                             else []))));
          o4 = o3 @ [Printf Done, FileClose, FileMountSave name, SetDownload False, ProgressReset]
      in \<lparr>returned = Some 1, final_cfg = st2, final_buf = buf s,
          events = o4 @ (if found then []
                         else if detection_error = 1 then [Info UnknownCICNotice]
                         else if detection_error = 2 then [Info UnknownCartIDNotice]
                         else [])\<rparr>)"

text \<open>
  \<^verbatim>\<open>n64_rom_tx(name, index)\<close>, run in the store \<open>st\<close> with \<open>b\<close> in the static buffer.
  The local \<^verbatim>\<open>cart_id\<close> starts uninitialised; it is read only after \<^verbatim>\<open>ipl3_crc\<close> matched
  a table entry, which the initial 0 does not, so the model starts it empty.
\<close>

definition n64_rom_tx ::
  "'c md5_ops \<Rightarrow> env \<Rightarrow> string \<Rightarrow> byte \<Rightarrow> status \<Rightarrow> byte list \<Rightarrow> tx_result" where
  "n64_rom_tx ops fs name index st b =
     (case rom_files fs name of
        None \<Rightarrow> \<lparr>returned = Some 0, final_cfg = st, final_buf = b, events = []\<rparr>
      | Some fdata \<Rightarrow>
          (let s0 = \<lparr>bytes2send = length fdata, is_first_chunk = True,
                     rom_found_in_db = False, rom_format = UNKNOWN, ctx = MD5Init ops,
                     ipl3_crc = 0, cart_id = [], region_code = CHR 0x00, revision = 0,
                     buf = b, cfg = st,
                     out = [Printf (FileToSend name (length fdata) index), SetIndex index,
                            SetDownload True, ProgressReset, ProcessSS name]\<rparr>
           in case tx_loop ops fs name fdata s0 of
                Inl (SourceTooShort, s) \<Rightarrow>
                  \<lparr>returned = Some 0, final_cfg = cfg s, final_buf = buf s, events = out s\<rparr>
              | Inl (AccessOutsideBuffer, s) \<Rightarrow>
                  \<lparr>returned = None, final_cfg = cfg s, final_buf = buf s, events = out s\<rparr>
              | Inr s \<Rightarrow> tx_finish ops fs name s))"

section \<open>Reading a run's events\<close>

text \<open>The store in which every field reads 0; its field \<^verbatim>\<open>[64]\<close> says auto-detect is on.\<close>

definition status_all_zero :: status where
  "status_all_zero field = 0"

text \<open>The writes to the configuration store among the events, in order.\<close>

fun status_writes :: "event list \<Rightarrow> (string \<times> 32 word) list" where
  "status_writes [] = []"
| "status_writes (StatusSet field v # es) = (field, v) # status_writes es"
| "status_writes (e # es) = status_writes es"

text \<open>The values written to one field, in order.\<close>

definition values_written :: "string \<Rightarrow> event list \<Rightarrow> 32 word list" where
  "values_written field es = map snd (filter (\<lambda>w. fst w = field) (status_writes es))"

text \<open>The chunks handed to \<^verbatim>\<open>user_io_file_tx_data\<close>, in order.\<close>

fun sent_chunks :: "event list \<Rightarrow> byte list list" where
  "sent_chunks [] = []"
| "sent_chunks (FileTxData bytes # es) = bytes # sent_chunks es"
| "sent_chunks (e # es) = sent_chunks es"

text \<open>The data files opened, in order.\<close>

fun data_files_opened :: "event list \<Rightarrow> string list" where
  "data_files_opened [] = []"
| "data_files_opened (OpenTextReader db_file_name # es) = db_file_name # data_files_opened es"
| "data_files_opened (e # es) = data_files_opened es"

text \<open>The notices shown with \<^verbatim>\<open>Info\<close>, in order.\<close>

fun notices :: "event list \<Rightarrow> notice list" where
  "notices [] = []"
| "notices (Info n # es) = n # notices es"
| "notices (e # es) = notices es"

text \<open>The digests printed as \<^verbatim>\<open>Header MD5\<close> and as \<^verbatim>\<open>File MD5\<close>, in order.\<close>

fun header_md5s :: "event list \<Rightarrow> string list" where
  "header_md5s [] = []"
| "header_md5s (Printf (HeaderMD5 h) # es) = h # header_md5s es"
| "header_md5s (e # es) = header_md5s es"

fun file_md5s :: "event list \<Rightarrow> string list" where
  "file_md5s [] = []"
| "file_md5s (Printf (FileMD5 h) # es) = h # file_md5s es"
| "file_md5s (e # es) = file_md5s es"

text \<open>The events of the loop's rounds after the first: a chunk sent, progress shown.\<close>

fun is_transfer :: "event \<Rightarrow> bool" where
  "is_transfer (FileTxData bytes) = True"
| "is_transfer (ProgressLoading name sent whole) = True"
| "is_transfer e = False"

text \<open>
  The values \<^verbatim>\<open>chunk\<close> takes along the loop when \<open>n\<close> bytes are left to send.
\<close>

function chunk_lengths :: "nat \<Rightarrow> nat list" where
  "chunk_lengths n =
     (if n = 0 then []
      else (if n > 4096 then 4096 else n) # chunk_lengths (n - (if n > 4096 then 4096 else n)))"
  by pat_completeness auto
termination
  by (relation "measure (\<lambda>n. n)") auto

section \<open>The three resolution paths on an accepted source\<close>

text \<open>
  The first chunk of a source of at least 4096 bytes after normalisation: its first
  4096 bytes, transformed as a whole by the format detected on them.
\<close>

definition header_chunk :: "byte list \<Rightarrow> byte list" where
  "header_chunk fdata = normalize_whole (detectRomFormat (take 4096 fdata)) (take 4096 fdata)"

text \<open>The header digest: the digest of the first chunk alone, in hexadecimal.\<close>

definition header_md5_hex :: "'c md5_ops \<Rightarrow> byte list \<Rightarrow> string" where
  "header_md5_hex ops fdata =
     md5_to_hex (fst (MD5Final ops (MD5Update ops (MD5Init ops) (header_chunk fdata))))"

text \<open>
  The digest of a stream of chunks hashed one after the other from a fresh context
  that is finalised once, at the end, in hexadecimal.
\<close>

definition stream_md5_hex :: "'c md5_ops \<Rightarrow> byte list list \<Rightarrow> string" where
  "stream_md5_hex ops chunks =
     md5_to_hex (fst (MD5Final ops (foldl (MD5Update ops) (MD5Init ops) chunks)))"

text \<open>The data-file search with the header digest, from the store \<open>st\<close>.\<close>

definition header_path ::
  "'c md5_ops \<Rightarrow> env \<Rightarrow> byte list \<Rightarrow> status \<Rightarrow> bool \<times> status \<times> event list" where
  "header_path ops fs fdata st = detect_rom_settings_in_dbs fs (header_md5_hex ops fdata) st"

text \<open>The data-file search with the digest of the chunks sent, from the store \<open>st\<close>.\<close>

definition file_path ::
  "'c md5_ops \<Rightarrow> env \<Rightarrow> byte list list \<Rightarrow> status \<Rightarrow> bool \<times> status \<times> event list" where
  "file_path ops fs chunks st = detect_rom_settings_in_dbs fs (stream_md5_hex ops chunks) st"

text \<open>
  The heuristic resolver on the header evidence, read from the normalised first chunk
  at the offsets \<^verbatim>\<open>n64_rom_tx\<close> uses, from the store \<open>st\<close>.
\<close>

definition header_crc :: "byte list \<Rightarrow> 64 word" where
  "header_crc fdata = add_ipl3_words (header_chunk fdata) 0"

definition heuristic_path :: "byte list \<Rightarrow> status \<Rightarrow> byte \<times> status \<times> event list" where
  "heuristic_path fdata st =
     detect_rom_settings_from_first_chunk
       (c_string (take 3 (drop 0x3b (header_chunk fdata))))
       (char_of (unat (header_chunk fdata ! 0x3e)))
       (header_chunk fdata ! 0x3f)
       (header_crc fdata) st"

section \<open>A stand-in hash for concrete runs\<close>

text \<open>
  The pipeline takes the hash as a parameter. To run it on concrete sources, this
  instance counts the bytes fed; its digest is sixteen copies of the number of whole
  4096-byte chunks fed, and finalising clears the context it is given.
\<close>

definition counting_md5 :: "nat md5_ops" where
  "counting_md5 =
     \<lparr>MD5Init = 0,
      MD5Update = (\<lambda>c bytes. c + length bytes),
      MD5Final = (\<lambda>c. (replicate 16 (of_nat (c div 4096)), 0))\<rparr>"

text \<open>
  A line the loop over a data file stops at when it searches for \<open>lookup_hash\<close>: its
  first 32 characters are those of the hash, and it has a second word.
\<close>

definition line_matches :: "string \<Rightarrow> string \<Rightarrow> bool" where
  "line_matches lookup_hash line =
     (take 32 lookup_hash = take 32 line \<and> sscanf_second_word line \<noteq> None)"

section \<open>Concrete sources\<close>

text \<open>
  Five file systems to run the pipeline on: a 4096-byte source of zeros whose header
  digest (under the stand-in hash) has a record in the first data file; an 8192-byte
  source of zeros whose file digest has a record and whose header digest has none; a
  4096-byte source of zeros with no data file at all; an 8192-byte source of zeros
  whose file digest and header digest both have a record, with different tags; and an
  empty source whose file digest has a record.
\<close>

definition fs_header_record :: env where
  "fs_header_record =
     \<lparr>rom_files = [''a.z64'' \<mapsto> replicate 4096 0],
      data_files = [''N64-database.txt'' \<mapsto>
                      [''01010101010101010101010101010101 sram32k|rpak'']]\<rparr>"

definition fs_file_record :: env where
  "fs_file_record =
     \<lparr>rom_files = [''b.z64'' \<mapsto> replicate 8192 0],
      data_files = [''N64-database.txt'' \<mapsto>
                      [''02020202020202020202020202020202 sram32k|rpak'']]\<rparr>"

definition fs_no_record :: env where
  "fs_no_record = \<lparr>rom_files = [''c.z64'' \<mapsto> replicate 4096 0], data_files = Map.empty\<rparr>"

definition fs_both_records :: env where
  "fs_both_records =
     \<lparr>rom_files = [''d.z64'' \<mapsto> replicate 8192 0],
      data_files = [''N64-database.txt'' \<mapsto>
                      [''02020202020202020202020202020202 eeprom512|cpak'',
                       ''01010101010101010101010101010101 sram32k|rpak'']]\<rparr>"

definition fs_empty_source :: env where
  "fs_empty_source =
     \<lparr>rom_files = [''e.z64'' \<mapsto> []],
      data_files = [''N64-database.txt'' \<mapsto>
                      [''00000000000000000000000000000000 sram32k|rpak'']]\<rparr>"

section \<open>Properties of the heuristic resolver\<close>

lemma status_sets_append: "status_sets (ws @ vs) st = status_sets vs (status_sets ws st)"
  by (induction ws arbitrary: st) auto

lemma status_writes_append: "status_writes (es @ fs) = status_writes es @ status_writes fs"
  by (induction es rule: status_writes.induct) auto

lemma status_writes_set_events: "status_writes (set_events ws) = ws"
  by (induction ws) (auto simp: set_events_def)

lemma switch_fnv_hash_append:
  "switch_fnv_hash (xs @ ys) h =
     (case switch_fnv_hash xs h of Some e \<Rightarrow> Some e | None \<Rightarrow> switch_fnv_hash ys h)"
  by (induction xs) auto

lemmas fnv_eval = fnv_hash_def FNV_PRIME_def FNV_OFFSET_BASIS_def

text \<open>
  The store a run of the resolver leaves is the store it started in with the writes
  among its events applied: nothing is written that is not an event.
\<close>

lemma heuristic_store_is_writes:
  "fst (snd (detect_rom_settings_from_first_chunk cid r v crc st)) =
     status_sets (status_writes (snd (snd (detect_rom_settings_from_first_chunk cid r v crc st)))) st"
  by (auto simp: detect_rom_settings_from_first_chunk_def Let_def status_writes_append
      status_writes_set_events status_sets_append
      split: option.splits prod.splits)

lemma heuristic_flag_only:
  assumes "user_io_status_get st1 ''[64]'' = user_io_status_get st2 ''[64]''"
  shows "fst (detect_rom_settings_from_first_chunk cid r v crc st1) =
           fst (detect_rom_settings_from_first_chunk cid r v crc st2)"
    and "snd (snd (detect_rom_settings_from_first_chunk cid r v crc st1)) =
           snd (snd (detect_rom_settings_from_first_chunk cid r v crc st2))"
  using assms
  by (auto simp: detect_rom_settings_from_first_chunk_def Let_def
      split: option.splits prod.splits)

subsection \<open>The cartridge \<^verbatim>\<open>NZL\<close>\<close>

lemma NZL_not_eeprom_512: "switch_fnv_hash carts_eeprom_512 (fnv_hash ''NZL'') = None"
  by (simp add: carts_eeprom_512_def fnv_eval)

lemma NZL_not_eeprom_2k: "switch_fnv_hash carts_eeprom_2k (fnv_hash ''NZL'') = None"
  by (simp add: carts_eeprom_2k_def fnv_eval)

lemma NZL_sram_32k:
  "switch_fnv_hash carts_sram_32k (fnv_hash ''NZL'') = Some (SRAM_32k, False, True, False, False)"
  by (simp add: carts_sram_32k_def fnv_eval)

lemma cart_switch_NZL:
  "cart_switch ''NZL'' r v = Some (SRAM_32k, False, True, False, False)"
  by (simp add: cart_switch_def cart_table_def switch_fnv_hash_append
      NZL_not_eeprom_512 NZL_not_eeprom_2k NZL_sram_32k)

lemma region_E_NTSC: "region_system_type (CHR ''E'') = NTSC"
  by (simp add: region_system_type_def)

lemma heuristic_NZL_E:
  assumes "user_io_status_get st ''[64]'' = 0"
  shows "detect_rom_settings_from_first_chunk ''NZL'' (CHR ''E'') v 0x000000f8b860ed00 st =
    (0,
     status_sets [(''[80:79]'', SystemType_u32 NTSC), (''[68:65]'', CIC_u32 CIC_NUS_6105),
                  (''[71]'', bool_u32 False), (''[72]'', bool_u32 True),
                  (''[73]'', bool_u32 False), (''[74]'', bool_u32 False),
                  (''[77:75]'', MemoryType_u32 SRAM_32k)] st,
     [Printf (SettingsLine NTSC NONE CIC_NUS_6105 False False False False),
      Printf AutoDetectOn,
      StatusSet ''[80:79]'' (SystemType_u32 NTSC), StatusSet ''[68:65]'' (CIC_u32 CIC_NUS_6105),
      StatusSet ''[71]'' (bool_u32 False), StatusSet ''[72]'' (bool_u32 True),
      StatusSet ''[73]'' (bool_u32 False), StatusSet ''[74]'' (bool_u32 False),
      StatusSet ''[77:75]'' (MemoryType_u32 SRAM_32k)])"
  using assms
  by (simp add: detect_rom_settings_from_first_chunk_def cic_switch_def region_E_NTSC
      cart_switch_NZL set_events_def)

lemma all_zero_flag_on: "user_io_status_get status_all_zero ''[64]'' = 0"
  by (simp add: user_io_status_get_def status_all_zero_def)

text \<open>
  C5, as the code has it. With auto-detect on, cartridge identifier \<^verbatim>\<open>NZL\<close>, region
  code \<^verbatim>\<open>E\<close> and the checksum \<^verbatim>\<open>0x000000f8b860ed00\<close> of the 6105/7105 entry, whatever the
  revision, the resolver returns 0 and writes system type NTSC, CIC 6105, no controller
  pak, rumble pak, no transfer pak, no real-time clock and 32 KiB SRAM, in this order:
  \<^verbatim>\<open>E\<close> is not among the region codes that mean PAL.
\<close>

theorem heuristic_NZL_E_is_NTSC_6105:
  assumes "user_io_status_get st ''[64]'' = 0"
  shows "fst (detect_rom_settings_from_first_chunk ''NZL'' (CHR ''E'') v 0x000000f8b860ed00 st) = 0
    \<and> status_writes (snd (snd
           (detect_rom_settings_from_first_chunk ''NZL'' (CHR ''E'') v 0x000000f8b860ed00 st))) =
         [(''[80:79]'', SystemType_u32 NTSC), (''[68:65]'', CIC_u32 CIC_NUS_6105),
          (''[71]'', bool_u32 False), (''[72]'', bool_u32 True),
          (''[73]'', bool_u32 False), (''[74]'', bool_u32 False),
          (''[77:75]'', MemoryType_u32 SRAM_32k)]
    \<and> fst (snd (detect_rom_settings_from_first_chunk ''NZL'' (CHR ''E'') v 0x000000f8b860ed00 st)) =
         status_sets
           [(''[80:79]'', SystemType_u32 NTSC), (''[68:65]'', CIC_u32 CIC_NUS_6105),
            (''[71]'', bool_u32 False), (''[72]'', bool_u32 True),
            (''[73]'', bool_u32 False), (''[74]'', bool_u32 False),
            (''[77:75]'', MemoryType_u32 SRAM_32k)] st"
  by (simp add: heuristic_NZL_E [OF assms])

theorem heuristic_NZL_E_is_NTSC_6105_witness:
  "user_io_status_get status_all_zero ''[64]'' = 0
   \<and> fst (detect_rom_settings_from_first_chunk ''NZL'' (CHR ''E'') 0 0x000000f8b860ed00
            status_all_zero) = 0
   \<and> status_writes (snd (snd (detect_rom_settings_from_first_chunk ''NZL'' (CHR ''E'') 0
        0x000000f8b860ed00 status_all_zero))) =
      [(''[80:79]'', 0), (''[68:65]'', 6), (''[71]'', 0), (''[72]'', 1), (''[73]'', 0),
       (''[74]'', 0), (''[77:75]'', 3)]"
  using heuristic_NZL_E_is_NTSC_6105 [OF all_zero_flag_on, of 0]
  by (simp add: all_zero_flag_on bool_u32_def)

text \<open>
  C5 as stated fails: on that input, with auto-detect on, the system type written is
  not PAL and the CIC written is not the 7105; and with auto-detect off nothing is
  written.
\<close>

theorem heuristic_NZL_E_not_PAL_7105:
  "values_written ''[80:79]'' (snd (snd (detect_rom_settings_from_first_chunk ''NZL'' (CHR ''E'') 0
      0x000000f8b860ed00 status_all_zero))) = [SystemType_u32 NTSC]
   \<and> SystemType_u32 NTSC \<noteq> SystemType_u32 PAL
   \<and> values_written ''[68:65]'' (snd (snd (detect_rom_settings_from_first_chunk ''NZL'' (CHR ''E'') 0
      0x000000f8b860ed00 status_all_zero))) = [CIC_u32 CIC_NUS_6105]
   \<and> CIC_u32 CIC_NUS_6105 \<noteq> CIC_u32 CIC_NUS_7105
   \<and> status_writes (snd (snd (detect_rom_settings_from_first_chunk ''NZL'' (CHR ''E'') 0
        0x000000f8b860ed00 (status_all_zero(''[64]'' := 1))))) = []"
  by (simp add: heuristic_NZL_E [OF all_zero_flag_on] values_written_def)
     (simp add: detect_rom_settings_from_first_chunk_def user_io_status_get_def)

subsection \<open>The two checksums that fix the system type\<close>

text \<open>
  C10. Once the resolver has passed its auto-detect guard, the checksum
  \<^verbatim>\<open>0x000000a405397b05\<close> gives CIC 7102 and system type PAL, and the checksum
  \<^verbatim>\<open>0x000000a0f26f62fe\<close> gives CIC 6101 and system type NTSC, for every region code,
  cartridge identifier and revision; the value written to the field \<^verbatim>\<open>[80:79]\<close>, and
  the value it holds afterwards, is the forced one, and it is written once.
\<close>

theorem checksum_forces_system_type:
  assumes "user_io_status_get st ''[64]'' = 0"
  shows "cic_switch 0x000000a405397b05 (region_system_type r) = Some (CIC_NUS_7102, PAL)
    \<and> values_written ''[80:79]''
           (snd (snd (detect_rom_settings_from_first_chunk cid r v 0x000000a405397b05 st))) =
         [SystemType_u32 PAL]
    \<and> values_written ''[68:65]''
           (snd (snd (detect_rom_settings_from_first_chunk cid r v 0x000000a405397b05 st))) =
         [CIC_u32 CIC_NUS_7102]
    \<and> fst (snd (detect_rom_settings_from_first_chunk cid r v 0x000000a405397b05 st)) ''[80:79]'' =
         SystemType_u32 PAL
    \<and> cic_switch 0x000000a0f26f62fe (region_system_type r) = Some (CIC_NUS_6101, NTSC)
    \<and> values_written ''[80:79]''
           (snd (snd (detect_rom_settings_from_first_chunk cid r v 0x000000a0f26f62fe st))) =
         [SystemType_u32 NTSC]
    \<and> values_written ''[68:65]''
           (snd (snd (detect_rom_settings_from_first_chunk cid r v 0x000000a0f26f62fe st))) =
         [CIC_u32 CIC_NUS_6101]
    \<and> fst (snd (detect_rom_settings_from_first_chunk cid r v 0x000000a0f26f62fe st)) ''[80:79]'' =
         SystemType_u32 NTSC"
  using assms
  by (auto simp: detect_rom_settings_from_first_chunk_def cic_switch_def Let_def
      values_written_def set_events_def user_io_status_set_def
      split: option.splits prod.splits)

theorem checksum_forces_system_type_witness:
  "user_io_status_get status_all_zero ''[64]'' = 0
   \<and> values_written ''[80:79]''
        (snd (snd (detect_rom_settings_from_first_chunk ''NSM'' (CHR ''E'') 0 0x000000a405397b05
           status_all_zero))) = [1]
   \<and> values_written ''[80:79]''
        (snd (snd (detect_rom_settings_from_first_chunk ''NSM'' (CHR ''P'') 0 0x000000a0f26f62fe
           status_all_zero))) = [0]"
  using checksum_forces_system_type [OF all_zero_flag_on, of "CHR ''E''" "''NSM''" 0]
    checksum_forces_system_type [OF all_zero_flag_on, of "CHR ''P''" "''NSM''" 0]
  by (simp add: all_zero_flag_on)

subsection \<open>What the resolver depends on\<close>

text \<open>
  C4, as the code has it. The resolver reads the auto-detect flag, field \<^verbatim>\<open>[64]\<close> of the
  configuration store, before anything else. Two runs on the same cartridge
  identifier, region code, revision and checksum, in two stores that agree on that
  flag, return the same code and cause the same events, so they make the same writes;
  and each leaves its store with exactly these writes applied.
\<close>

theorem heuristic_function_of_inputs_and_flag:
  assumes "user_io_status_get st1 ''[64]'' = user_io_status_get st2 ''[64]''"
  shows "fst (detect_rom_settings_from_first_chunk cid r v crc st1) =
           fst (detect_rom_settings_from_first_chunk cid r v crc st2)
    \<and> snd (snd (detect_rom_settings_from_first_chunk cid r v crc st1)) =
           snd (snd (detect_rom_settings_from_first_chunk cid r v crc st2))
    \<and> fst (snd (detect_rom_settings_from_first_chunk cid r v crc st1)) =
           status_sets (status_writes
             (snd (snd (detect_rom_settings_from_first_chunk cid r v crc st1)))) st1
    \<and> fst (snd (detect_rom_settings_from_first_chunk cid r v crc st2)) =
           status_sets (status_writes
             (snd (snd (detect_rom_settings_from_first_chunk cid r v crc st1)))) st2"
proof -
  have code: "fst (detect_rom_settings_from_first_chunk cid r v crc st1) =
          fst (detect_rom_settings_from_first_chunk cid r v crc st2)"
    by (rule heuristic_flag_only (1) [OF assms])
  have ev: "snd (snd (detect_rom_settings_from_first_chunk cid r v crc st1)) =
          snd (snd (detect_rom_settings_from_first_chunk cid r v crc st2))"
    by (rule heuristic_flag_only (2) [OF assms])
  have w1: "fst (snd (detect_rom_settings_from_first_chunk cid r v crc st1)) =
          status_sets (status_writes
            (snd (snd (detect_rom_settings_from_first_chunk cid r v crc st1)))) st1"
    by (rule heuristic_store_is_writes)
  have w2: "fst (snd (detect_rom_settings_from_first_chunk cid r v crc st2)) =
          status_sets (status_writes
            (snd (snd (detect_rom_settings_from_first_chunk cid r v crc st1)))) st2"
    unfolding ev by (rule heuristic_store_is_writes)
  from code ev w1 w2 show ?thesis by blast
qed

theorem heuristic_function_of_inputs_and_flag_witness:
  "user_io_status_get status_all_zero ''[64]'' =
     user_io_status_get (status_all_zero(''[72]'' := 1)) ''[64]''
   \<and> fst (detect_rom_settings_from_first_chunk ''NZL'' (CHR ''E'') 0 0x000000f8b860ed00
            status_all_zero) =
     fst (detect_rom_settings_from_first_chunk ''NZL'' (CHR ''E'') 0 0x000000f8b860ed00
            (status_all_zero(''[72]'' := 1)))
   \<and> snd (snd (detect_rom_settings_from_first_chunk ''NZL'' (CHR ''E'') 0 0x000000f8b860ed00
            status_all_zero)) =
     snd (snd (detect_rom_settings_from_first_chunk ''NZL'' (CHR ''E'') 0 0x000000f8b860ed00
            (status_all_zero(''[72]'' := 1))))"
proof -
  have flag: "user_io_status_get status_all_zero ''[64]'' =
      user_io_status_get (status_all_zero(''[72]'' := 1)) ''[64]''"
    by (simp add: user_io_status_get_def)
  show ?thesis
    using flag heuristic_function_of_inputs_and_flag [OF flag]
    by blast
qed

text \<open>
  C4 as stated fails: with the same four inputs, a checksum that is in no table entry,
  the resolver returns 1 when auto-detect is on and 0 when it is off; and on a
  recognised cartridge it writes the profile in the first store and nothing in the
  second.
\<close>

theorem heuristic_not_function_of_four_inputs:
  "fst (detect_rom_settings_from_first_chunk ''NZL'' (CHR ''E'') 0 0 status_all_zero) = 1
   \<and> fst (detect_rom_settings_from_first_chunk ''NZL'' (CHR ''E'') 0 0
            (status_all_zero(''[64]'' := 1))) = 0
   \<and> status_writes (snd (snd (detect_rom_settings_from_first_chunk ''NZL'' (CHR ''E'') 0
        0x000000f8b860ed00 status_all_zero))) \<noteq> []
   \<and> status_writes (snd (snd (detect_rom_settings_from_first_chunk ''NZL'' (CHR ''E'') 0
        0x000000f8b860ed00 (status_all_zero(''[64]'' := 1))))) = []"
  by (simp add: heuristic_NZL_E [OF all_zero_flag_on])
     (simp add: detect_rom_settings_from_first_chunk_def user_io_status_get_def
        status_all_zero_def cic_switch_def)

section \<open>Properties of the normaliser\<close>

text \<open>The loops' equations are unfolded one round at a time.\<close>

declare swap_pairs_loop.simps [simp del] reverse_quads_loop.simps [simp del]

lemma not_4_dvd:
  "\<not> (4 :: nat) dvd Suc (Suc 0)" "\<not> (4 :: nat) dvd Suc (Suc (Suc 0))"
  by presburger+

lemma swap_pairs_loop_groups:
  "length pre = i \<Longrightarrow> even (length xs) \<Longrightarrow>
   swap_pairs_loop i (i + length xs) (pre @ xs @ post) = Some (pre @ swap_pairs xs @ post)"
proof (induction xs arbitrary: i pre rule: swap_pairs.induct)
  case (1 c0 c1 rest)
  have "swap_pairs_loop i (i + length (c0 # c1 # rest)) (pre @ (c0 # c1 # rest) @ post) =
        swap_pairs_loop (i + 2) (i + 2 + length rest) ((pre @ [c1, c0]) @ rest @ post)"
    using "1.prems"
    by (subst swap_pairs_loop.simps) (simp add: nth_append list_update_append)
  also have "\<dots> = Some ((pre @ [c1, c0]) @ swap_pairs rest @ post)"
    using "1.prems" by (intro "1.IH") auto
  finally show ?case by simp
qed (simp_all add: swap_pairs_loop.simps)

lemma reverse_quads_loop_groups:
  "length pre = i \<Longrightarrow> 4 dvd length xs \<Longrightarrow>
   reverse_quads_loop i (i + length xs) (pre @ xs @ post) = Some (pre @ reverse_quads xs @ post)"
proof (induction xs arbitrary: i pre rule: reverse_quads.induct)
  case (1 c0 c1 c2 c3 rest)
  have rest4: "4 dvd length rest" using "1.prems" by simp presburger
  have sz: "i + length (c0 # c1 # c2 # c3 # rest) = (i + 4) + length rest" by simp
  have "reverse_quads_loop i (i + length (c0 # c1 # c2 # c3 # rest))
          (pre @ (c0 # c1 # c2 # c3 # rest) @ post) =
        reverse_quads_loop (i + 4) (i + length (c0 # c1 # c2 # c3 # rest))
          ((pre @ [c3, c2, c1, c0]) @ rest @ post)"
    using "1.prems"
    by (subst reverse_quads_loop.simps) (simp add: nth_append list_update_append)
  also have "\<dots> = reverse_quads_loop (i + 4) ((i + 4) + length rest)
          ((pre @ [c3, c2, c1, c0]) @ rest @ post)"
    by (simp only: sz)
  also have "\<dots> = Some ((pre @ [c3, c2, c1, c0]) @ reverse_quads rest @ post)"
    using "1.prems" rest4 by (intro "1.IH") auto
  finally show ?case by simp
qed (simp_all add: reverse_quads_loop.simps not_4_dvd)

lemma swap_pairs_append:
  "even (length xs) \<Longrightarrow> swap_pairs (xs @ ys) = swap_pairs xs @ swap_pairs ys"
  by (induction xs rule: swap_pairs.induct) auto

lemma reverse_quads_append:
  "4 dvd length xs \<Longrightarrow> reverse_quads (xs @ ys) = reverse_quads xs @ reverse_quads ys"
proof (induction xs rule: reverse_quads.induct)
  case (1 c0 c1 c2 c3 rest)
  then have "4 dvd length rest" by simp presburger
  with 1 show ?case by simp
qed (simp_all add: not_4_dvd)

lemma length_swap_pairs [simp]: "length (swap_pairs xs) = length xs"
  by (induction xs rule: swap_pairs.induct) auto

lemma length_reverse_quads [simp]: "length (reverse_quads xs) = length xs"
  by (induction xs rule: reverse_quads.induct) auto

lemma normalizeData_whole:
  assumes "granularity fmt dvd length c"
  shows "normalizeData c (length c) fmt = Some (normalize_whole fmt c)"
proof (cases fmt)
  case BYTE_SWAPPED
  with assms swap_pairs_loop_groups [of "[]" 0 c "[]"] show ?thesis by simp
next
  case LITTLE_ENDIAN
  with assms reverse_quads_loop_groups [of "[]" 0 c "[]"] show ?thesis by simp
qed simp_all

lemma normalize_whole_append:
  "granularity fmt dvd length xs \<Longrightarrow>
   normalize_whole fmt (xs @ ys) = normalize_whole fmt xs @ normalize_whole fmt ys"
  by (cases fmt) (simp_all add: swap_pairs_append reverse_quads_append)

lemma normalize_whole_concat:
  "\<forall>c \<in> set chunks. granularity fmt dvd length c \<Longrightarrow>
   normalize_whole fmt (concat chunks) = concat (map (normalize_whole fmt) chunks)"
  by (induction chunks) (simp_all add: normalize_whole_append, cases fmt, simp_all)

lemma granularity_dvd_concat:
  "\<forall>c \<in> set chunks. granularity fmt dvd length c \<Longrightarrow>
   granularity fmt dvd length (concat chunks)"
  by (induction chunks) simp_all

lemma those_normalizeData:
  "\<forall>c \<in> set chunks. granularity fmt dvd length c \<Longrightarrow>
   those (map (\<lambda>c. normalizeData c (length c) fmt) chunks) =
     Some (map (normalize_whole fmt) chunks)"
  by (induction chunks) (simp_all add: normalizeData_whole)

text \<open>
  C8. For every format and every list of chunks whose lengths are multiples of the
  format's granularity (2 for byte-swapped, 4 for little-endian, 1 otherwise),
  \<^verbatim>\<open>normalizeData\<close> succeeds on every chunk and on their concatenation, and the
  concatenation of the normalised chunks is the normalised concatenation.
\<close>

theorem chunked_normalization:
  assumes "\<forall>c \<in> set chunks. granularity fmt dvd length c"
  shows "normalizeData (concat chunks) (length (concat chunks)) fmt \<noteq> None
    \<and> map_option concat (those (map (\<lambda>c. normalizeData c (length c) fmt) chunks)) =
        normalizeData (concat chunks) (length (concat chunks)) fmt"
  using assms
  by (simp add: those_normalizeData normalizeData_whole granularity_dvd_concat
      normalize_whole_concat)

theorem chunked_normalization_witness:
  "granularity LITTLE_ENDIAN dvd length [1, 2, 3, 4 :: byte]
   \<and> granularity LITTLE_ENDIAN dvd length [5, 6, 7, 8, 9, 10, 11, 12 :: byte]
   \<and> normalizeData [1, 2, 3, 4, 5, 6, 7, 8, 9, 10, 11, 12] 12 LITTLE_ENDIAN =
       Some [4, 3, 2, 1, 8, 7, 6, 5, 12, 11, 10, 9]
   \<and> normalizeData [1, 2, 3, 4] 4 LITTLE_ENDIAN = Some [4, 3, 2, 1]
   \<and> normalizeData [5, 6, 7, 8, 9, 10, 11, 12] 8 LITTLE_ENDIAN = Some [8, 7, 6, 5, 12, 11, 10, 9]"
proof -
  have g: "\<forall>c \<in> set [[1, 2, 3, 4], [5, 6, 7, 8, 9, 10, 11, 12 :: byte]].
      granularity LITTLE_ENDIAN dvd length c"
    by simp presburger
  show ?thesis
    using g chunked_normalization [OF g]
    by (simp add: reverse_quads_loop.simps)
qed

subsection \<open>The loops stay inside a buffer of whole groups\<close>

lemma swap_pairs_loop_safe:
  "even (length data) \<Longrightarrow> even i \<Longrightarrow> sz \<le> length data \<Longrightarrow>
   \<exists>d. swap_pairs_loop i sz data = Some d \<and> length d = length data"
proof (induction i sz data rule: swap_pairs_loop.induct)
  case (1 i sz data)
  show ?case
  proof (cases "i < sz")
    case False
    then show ?thesis by (subst swap_pairs_loop.simps) simp
  next
    case True
    with "1.prems" have inb: "i + 1 < length data" by presburger
    have "\<exists>d. swap_pairs_loop (i + 2) sz (data[i := data ! (i + 1), i + 1 := data ! i]) = Some d
            \<and> length d = length (data[i := data ! (i + 1), i + 1 := data ! i])"
      using True inb "1.prems" by (intro "1.IH") auto
    then show ?thesis
      using True inb by (subst swap_pairs_loop.simps) (simp add: Let_def)
  qed
qed

lemma reverse_quads_loop_safe:
  "4 dvd length data \<Longrightarrow> 4 dvd i \<Longrightarrow> sz \<le> length data \<Longrightarrow>
   \<exists>d. reverse_quads_loop i sz data = Some d \<and> length d = length data"
proof (induction i sz data rule: reverse_quads_loop.induct)
  case (1 i sz data)
  show ?case
  proof (cases "i < sz")
    case False
    then show ?thesis by (subst reverse_quads_loop.simps) simp
  next
    case True
    with "1.prems" have inb: "i + 3 < length data" by presburger
    have "\<exists>d. reverse_quads_loop (i + 4) sz
               (data[i := data ! (i + 3), i + 1 := data ! (i + 2), i + 2 := data ! (i + 1),
                     i + 3 := data ! i]) = Some d
            \<and> length d = length (data[i := data ! (i + 3), i + 1 := data ! (i + 2),
                     i + 2 := data ! (i + 1), i + 3 := data ! i])"
      using True inb "1.prems" by (intro "1.IH") auto
    then show ?thesis
      using True inb by (subst reverse_quads_loop.simps) (simp add: Let_def)
  qed
qed

lemma normalizeData_safe:
  assumes "4 dvd length data" and "sz \<le> length data"
  shows "\<exists>d. normalizeData data sz fmt = Some d \<and> length d = length data"
proof (cases fmt)
  case BYTE_SWAPPED
  from assms have "even (length data)" by presburger
  with assms BYTE_SWAPPED show ?thesis
    using swap_pairs_loop_safe [of data 0 sz] by simp
next
  case LITTLE_ENDIAN
  with assms show ?thesis
    using reverse_quads_loop_safe [of data 0 sz] by simp
qed simp_all

section \<open>Properties of the tag database\<close>

lemma sent_chunks_append [simp]: "sent_chunks (es @ fs) = sent_chunks es @ sent_chunks fs"
  by (induction es rule: sent_chunks.induct) auto

lemma data_files_opened_append [simp]:
  "data_files_opened (es @ fs) = data_files_opened es @ data_files_opened fs"
  by (induction es rule: data_files_opened.induct) auto

lemma notices_append [simp]: "notices (es @ fs) = notices es @ notices fs"
  by (induction es rule: notices.induct) auto

lemma header_md5s_append [simp]: "header_md5s (es @ fs) = header_md5s es @ header_md5s fs"
  by (induction es rule: header_md5s.induct) auto

lemma file_md5s_append [simp]: "file_md5s (es @ fs) = file_md5s es @ file_md5s fs"
  by (induction es rule: file_md5s.induct) auto

lemma set_events_quiet [simp]:
  "sent_chunks (set_events ws) = []" "notices (set_events ws) = []"
  "header_md5s (set_events ws) = []" "file_md5s (set_events ws) = []"
  "data_files_opened (set_events ws) = []"
  by (induction ws) (auto simp: set_events_def)

subsection \<open>The events of a search\<close>

lemma apply_tag_quiet:
  "status_writes (snd (apply_tag t p)) = [] \<and> sent_chunks (snd (apply_tag t p)) = []
   \<and> notices (snd (apply_tag t p)) = [] \<and> header_md5s (snd (apply_tag t p)) = []
   \<and> file_md5s (snd (apply_tag t p)) = [] \<and> data_files_opened (snd (apply_tag t p)) = []"
  by (simp add: apply_tag_def Let_def split: option.splits)

lemma apply_tags_quiet:
  "status_writes (snd (apply_tags ts p)) = [] \<and> sent_chunks (snd (apply_tags ts p)) = []
   \<and> notices (snd (apply_tags ts p)) = [] \<and> header_md5s (snd (apply_tags ts p)) = []
   \<and> file_md5s (snd (apply_tags ts p)) = [] \<and> data_files_opened (snd (apply_tags ts p)) = []"
  by (induction ts arbitrary: p)
     (simp_all add: split_beta Let_def status_writes_append apply_tag_quiet)

lemma apply_tags_quiet':
  assumes "apply_tags ts p = (q, e)"
  shows "status_writes e = []" "sent_chunks e = []" "notices e = []"
    "header_md5s e = []" "file_md5s e = []" "data_files_opened e = []"
  using apply_tags_quiet [of ts p] assms by simp_all

lemma scan_lines_quiet:
  "sent_chunks (snd (snd (scan_lines h ls st))) = []
   \<and> notices (snd (snd (scan_lines h ls st))) = []
   \<and> header_md5s (snd (snd (scan_lines h ls st))) = []
   \<and> file_md5s (snd (snd (scan_lines h ls st))) = []
   \<and> data_files_opened (snd (snd (scan_lines h ls st))) = []"
  by (induction ls)
     (simp_all add: split_beta Let_def apply_tags_quiet split: option.splits)

lemma scan_lines_store:
  "fst (snd (scan_lines h ls st)) =
     status_sets (status_writes (snd (snd (scan_lines h ls st)))) st"
  by (induction ls)
     (simp_all add: split_beta Let_def status_writes_append status_writes_set_events
       apply_tags_quiet split: option.splits)

lemma scan_lines_miss:
  "\<not> fst (scan_lines h ls st) \<Longrightarrow>
   fst (snd (scan_lines h ls st)) = st \<and> status_writes (snd (snd (scan_lines h ls st))) = []"
  by (induction ls) (simp_all add: split_beta Let_def split: option.splits if_splits)

lemma detect_in_db_quiet:
  "sent_chunks (snd (snd (detect_rom_settings_in_db fs h n st))) = []
   \<and> notices (snd (snd (detect_rom_settings_in_db fs h n st))) = []
   \<and> header_md5s (snd (snd (detect_rom_settings_in_db fs h n st))) = []
   \<and> file_md5s (snd (snd (detect_rom_settings_in_db fs h n st))) = []"
  by (simp add: detect_rom_settings_in_db_def split_beta scan_lines_quiet split: option.splits)

lemma detect_in_db_store:
  "fst (snd (detect_rom_settings_in_db fs h n st)) =
     status_sets (status_writes (snd (snd (detect_rom_settings_in_db fs h n st)))) st"
  using scan_lines_store [of h _ st]
  by (simp add: detect_rom_settings_in_db_def split_beta split: option.splits)

lemma detect_in_db_miss:
  "\<not> fst (detect_rom_settings_in_db fs h n st) \<Longrightarrow>
   fst (snd (detect_rom_settings_in_db fs h n st)) = st
   \<and> status_writes (snd (snd (detect_rom_settings_in_db fs h n st))) = []"
  using scan_lines_miss [of h _ st]
  by (simp add: detect_rom_settings_in_db_def split_beta split: option.splits)

lemma detect_in_files_quiet:
  "sent_chunks (snd (snd (detect_in_files fs h ns st))) = []
   \<and> notices (snd (snd (detect_in_files fs h ns st))) = []
   \<and> header_md5s (snd (snd (detect_in_files fs h ns st))) = []
   \<and> file_md5s (snd (snd (detect_in_files fs h ns st))) = []"
proof (induction ns arbitrary: st)
  case (Cons n ns)
  obtain f1 s1 e1 where r1: "detect_rom_settings_in_db fs h n st = (f1, s1, e1)"
    by (cases "detect_rom_settings_in_db fs h n st") auto
  obtain f2 s2 e2 where r2: "detect_in_files fs h ns s1 = (f2, s2, e2)"
    by (cases "detect_in_files fs h ns s1") auto
  from detect_in_db_quiet [of fs h n st] Cons.IH [of s1] r1 r2
  show ?case by simp
qed simp

lemma detect_in_files_store:
  "fst (snd (detect_in_files fs h ns st)) =
     status_sets (status_writes (snd (snd (detect_in_files fs h ns st)))) st"
proof (induction ns arbitrary: st)
  case (Cons n ns)
  obtain f1 s1 e1 where r1: "detect_rom_settings_in_db fs h n st = (f1, s1, e1)"
    by (cases "detect_rom_settings_in_db fs h n st") auto
  obtain f2 s2 e2 where r2: "detect_in_files fs h ns s1 = (f2, s2, e2)"
    by (cases "detect_in_files fs h ns s1") auto
  from detect_in_db_store [of fs h n st] Cons.IH [of s1] r1 r2
  show ?case by (simp add: status_writes_append status_sets_append)
qed simp

lemma detect_in_files_miss:
  "\<not> fst (detect_in_files fs h ns st) \<Longrightarrow>
   fst (snd (detect_in_files fs h ns st)) = st
   \<and> status_writes (snd (snd (detect_in_files fs h ns st))) = []"
proof (induction ns arbitrary: st)
  case (Cons n ns)
  obtain f1 s1 e1 where r1: "detect_rom_settings_in_db fs h n st = (f1, s1, e1)"
    by (cases "detect_rom_settings_in_db fs h n st") auto
  obtain f2 s2 e2 where r2: "detect_in_files fs h ns s1 = (f2, s2, e2)"
    by (cases "detect_in_files fs h ns s1") auto
  from Cons.prems r1 r2 have nf: "\<not> f1" "\<not> f2" by (auto split: if_splits)
  from detect_in_db_miss [of fs h n st] r1 nf have "s1 = st" "status_writes e1 = []" by simp_all
  moreover from Cons.IH [of s1] r2 nf have "s2 = s1" "status_writes e2 = []" by simp_all
  ultimately show ?case using r1 r2 nf by (simp add: status_writes_append)
qed simp

lemma dbs_quiet:
  "sent_chunks (snd (snd (detect_rom_settings_in_dbs fs h st))) = []"
  "notices (snd (snd (detect_rom_settings_in_dbs fs h st))) = []"
  "header_md5s (snd (snd (detect_rom_settings_in_dbs fs h st))) = []"
  "file_md5s (snd (snd (detect_rom_settings_in_dbs fs h st))) = []"
  using detect_in_files_quiet [of fs h DB_FILE_NAMES st]
  by (simp_all add: detect_rom_settings_in_dbs_def)

lemma dbs_store:
  "fst (snd (detect_rom_settings_in_dbs fs h st)) =
     status_sets (status_writes (snd (snd (detect_rom_settings_in_dbs fs h st)))) st"
  by (simp add: detect_rom_settings_in_dbs_def detect_in_files_store)

lemma dbs_miss:
  assumes "\<not> fst (detect_rom_settings_in_dbs fs h st)"
  shows "fst (snd (detect_rom_settings_in_dbs fs h st)) = st"
    and "status_writes (snd (snd (detect_rom_settings_in_dbs fs h st))) = []"
  using detect_in_files_miss [of fs h DB_FILE_NAMES st] assms
  by (simp_all add: detect_rom_settings_in_dbs_def)

lemma heuristic_quiet:
  "sent_chunks (snd (snd (detect_rom_settings_from_first_chunk cid r v crc st))) = []"
  "notices (snd (snd (detect_rom_settings_from_first_chunk cid r v crc st))) = []"
  "header_md5s (snd (snd (detect_rom_settings_from_first_chunk cid r v crc st))) = []"
  "file_md5s (snd (snd (detect_rom_settings_from_first_chunk cid r v crc st))) = []"
  "data_files_opened (snd (snd (detect_rom_settings_from_first_chunk cid r v crc st))) = []"
  by (auto simp: detect_rom_settings_from_first_chunk_def Let_def
      split: option.splits prod.splits)

subsection \<open>The tag \<^verbatim>\<open>cicDDUS\<close>\<close>

lemma normalize_cicDDUS: "normalizeString ''cicDDUS'' = ''cicddus''"
  by code_simp

lemma normalize_CIC8401: "normalizeString ''CIC8401'' = ''cic8401''"
  by code_simp

lemma cicddus_no_case: "switch_fnv_hash tag_cases (fnv_hash ''cicddus'') = None"
  by (simp add: tag_cases_def fnv_eval)

lemma apply_tag_cicDDUS:
  "apply_tag ''cicDDUS'' p = (p, [Printf (TagLine ''cicDDUS''), Printf (UnknownTag ''cicddus'')])"
  by (simp add: apply_tag_def normalize_cicDDUS cicddus_no_case)

text \<open>
  C6 fails on the code for the DDUS token. The tag is lower-cased before it is hashed,
  and the case label is the hash of \<^verbatim>\<open>cicDDUS\<close> with its capitals, so the tag \<^verbatim>\<open>cicDDUS\<close>
  of a data-file record falls to the \<^verbatim>\<open>default\<close> case: the profile is unchanged and
  \<^verbatim>\<open>Unknown tag: cicddus\<close> is printed. On a record whose only tag it is, with
  auto-detect on, the CIC written is the default 6102. A sibling token in capitals,
  \<^verbatim>\<open>CIC8401\<close>, has its effect.
\<close>

theorem cicDDUS_tag_falls_to_default:
  "apply_tag ''cicDDUS'' p = (p, [Printf (TagLine ''cicDDUS''), Printf (UnknownTag ''cicddus'')])
   \<and> fst (apply_tag ''CIC8401'' p) = p\<lparr>cic := CIC_NUS_8401\<rparr>
   \<and> fst (detect_rom_settings_in_dbs
        \<lparr>rom_files = Map.empty,
         data_files = [''N64-database.txt'' \<mapsto> [''0123456789abcdef0123456789abcdef cicDDUS'']]\<rparr>
        ''0123456789abcdef0123456789abcdef'' status_all_zero)
   \<and> values_written ''[68:65]'' (snd (snd (detect_rom_settings_in_dbs
        \<lparr>rom_files = Map.empty,
         data_files = [''N64-database.txt'' \<mapsto> [''0123456789abcdef0123456789abcdef cicDDUS'']]\<rparr>
        ''0123456789abcdef0123456789abcdef'' status_all_zero))) = [CIC_u32 CIC_NUS_6102]
   \<and> CIC_u32 CIC_NUS_6102 \<noteq> CIC_u32 CIC_NUS_DDUS"
proof -
  have a: "fst (apply_tag ''CIC8401'' p) = p\<lparr>cic := CIC_NUS_8401\<rparr>"
    by (simp add: apply_tag_def normalize_CIC8401 tag_cases_def fnv_eval)
  have w: "sscanf_second_word ''0123456789abcdef0123456789abcdef cicDDUS'' = Some ''cicDDUS''"
    by (simp add: sscanf_second_word_def isspace_def)
  have t: "strtok_all ''cicDDUS'' = [''cicDDUS'']"
    by (simp add: strtok_all_def)
  have d: "detect_rom_settings_in_dbs
        \<lparr>rom_files = Map.empty,
         data_files = [''N64-database.txt'' \<mapsto> [''0123456789abcdef0123456789abcdef cicDDUS'']]\<rparr>
        ''0123456789abcdef0123456789abcdef'' status_all_zero =
      (True, status_sets (profile_writes default_profile) status_all_zero,
       [OpenTextReader ''N64-database.txt'',
        Printf (FoundRomEntry ''0123456789abcdef0123456789abcdef cicDDUS''),
        Printf (TagLine ''cicDDUS''), Printf (UnknownTag ''cicddus''),
        Printf (SettingsLine NTSC NONE CIC_NUS_6102 False False False False),
        Printf AutoDetectOn] @ set_events (profile_writes default_profile))"
    by (simp add: detect_rom_settings_in_dbs_def DB_FILE_NAMES_def
        detect_rom_settings_in_db_def w t apply_tag_cicDDUS all_zero_flag_on default_profile_def)
  show ?thesis
    unfolding d
    by (simp add: apply_tag_cicDDUS a values_written_def status_writes_set_events
        profile_writes_def default_profile_def)
qed

section \<open>Properties of the ingestion pipeline\<close>

declare tx_loop.simps [simp del] chunk_lengths.simps [simp del]

lemma transfer_quiet:
  "list_all is_transfer es \<Longrightarrow>
   status_writes es = [] \<and> data_files_opened es = [] \<and> notices es = []
   \<and> header_md5s es = [] \<and> file_md5s es = []"
proof (induction es)
  case (Cons e es)
  then show ?case by (cases e) auto
qed simp

lemma chunk_lengths_0: "chunk_lengths 0 = []"
  by (subst chunk_lengths.simps) simp

lemma chunk_lengths_step:
  "0 < n \<Longrightarrow> chunk_lengths n = min 4096 n # chunk_lengths (n - min 4096 n)"
  by (subst chunk_lengths.simps) (simp add: min_def)

lemma tx_chunk_rest:
  assumes "\<not> is_first_chunk s" and "length (buf s) = 4096"
    and "0 < bytes2send s" and "bytes2send s \<le> length fdata"
  shows "\<exists>d. length d = 4096 \<and>
     tx_chunk ops fs name fdata s =
       Inr (s\<lparr>buf := d,
              ctx := MD5Update ops (ctx s) (take (min 4096 (bytes2send s)) d),
              out := out s @ [FileTxData (take (min 4096 (bytes2send s)) d),
                              ProgressLoading name (length fdata - bytes2send s) (length fdata)],
              bytes2send := bytes2send s - min 4096 (bytes2send s),
              is_first_chunk := False\<rparr>)"
proof -
  let ?chunk = "min 4096 (bytes2send s)"
  let ?b1 = "FileReadAdv fdata (length fdata - bytes2send s) ?chunk (buf s)"
  have len1: "length ?b1 = 4096"
    using assms by (auto simp: FileReadAdv_def min_def)
  then have "4 dvd length ?b1" and "?chunk \<le> length ?b1" by simp_all
  from normalizeData_safe [OF this, of "rom_format s"]
  obtain d where d: "normalizeData ?b1 ?chunk (rom_format s) = Some d" "length d = length ?b1"
    by blast
  have chunk: "(if bytes2send s > 4096 then 4096 else bytes2send s) = ?chunk"
    by (simp add: min_def)
  show ?thesis
    using assms(1) d len1
    by (intro exI [of _ d]) (simp add: tx_chunk_def chunk Let_def)
qed

lemma tx_loop_rest:
  assumes "\<not> is_first_chunk s" and "length (buf s) = 4096" and "bytes2send s \<le> length fdata"
  shows "\<exists>s' es. tx_loop ops fs name fdata s = Inr s' \<and> out s' = out s @ es
     \<and> list_all is_transfer es
     \<and> map length (sent_chunks es) = chunk_lengths (bytes2send s)
     \<and> ctx s' = foldl (MD5Update ops) (ctx s) (sent_chunks es)
     \<and> cfg s' = cfg s \<and> rom_found_in_db s' = rom_found_in_db s
     \<and> ipl3_crc s' = ipl3_crc s \<and> cart_id s' = cart_id s
     \<and> region_code s' = region_code s \<and> revision s' = revision s
     \<and> length (buf s') = 4096"
  using assms
proof (induction ops fs name fdata s rule: tx_loop.induct)
  case (1 ops fs name fdata s)
  show ?case
  proof (cases "bytes2send s = 0")
    case True
    have "tx_loop ops fs name fdata s = Inr s"
      using True by (subst tx_loop.simps) simp
    then show ?thesis
      using True "1.prems" by (intro exI [of _ s] exI [of _ "[]"]) (simp add: chunk_lengths_0)
  next
    case False
    let ?chunk = "min 4096 (bytes2send s)"
    from False "1.prems" tx_chunk_rest [of s fdata ops fs name]
    obtain d where d: "length d = 4096"
      and step: "tx_chunk ops fs name fdata s =
       Inr (s\<lparr>buf := d,
              ctx := MD5Update ops (ctx s) (take ?chunk d),
              out := out s @ [FileTxData (take ?chunk d),
                              ProgressLoading name (length fdata - bytes2send s) (length fdata)],
              bytes2send := bytes2send s - ?chunk,
              is_first_chunk := False\<rparr>)" (is "_ = Inr ?s1")
      by auto
    have "\<exists>s' es. tx_loop ops fs name fdata ?s1 = Inr s' \<and> out s' = out ?s1 @ es
     \<and> list_all is_transfer es
     \<and> map length (sent_chunks es) = chunk_lengths (bytes2send ?s1)
     \<and> ctx s' = foldl (MD5Update ops) (ctx ?s1) (sent_chunks es)
     \<and> cfg s' = cfg ?s1 \<and> rom_found_in_db s' = rom_found_in_db ?s1
     \<and> ipl3_crc s' = ipl3_crc ?s1 \<and> cart_id s' = cart_id ?s1
     \<and> region_code s' = region_code ?s1 \<and> revision s' = revision ?s1
     \<and> length (buf s') = 4096"
      using "1.prems" d by (intro "1.IH" [OF False step]) simp_all
    then obtain s' es where rest: "tx_loop ops fs name fdata ?s1 = Inr s'"
      "out s' = out ?s1 @ es" "list_all is_transfer es"
      "map length (sent_chunks es) = chunk_lengths (bytes2send ?s1)"
      "ctx s' = foldl (MD5Update ops) (ctx ?s1) (sent_chunks es)"
      "cfg s' = cfg ?s1" "rom_found_in_db s' = rom_found_in_db ?s1"
      "ipl3_crc s' = ipl3_crc ?s1" "cart_id s' = cart_id ?s1"
      "region_code s' = region_code ?s1" "revision s' = revision ?s1"
      "length (buf s') = 4096"
      by blast
    have loop: "tx_loop ops fs name fdata s = Inr s'"
      using False step rest(1) by (subst tx_loop.simps) simp
    have len: "length (take ?chunk d) = ?chunk"
      using d by (simp add: min_def)
    let ?es = "[FileTxData (take ?chunk d),
                ProgressLoading name (length fdata - bytes2send s) (length fdata)] @ es"
    show ?thesis
      using loop rest len False
      by (intro exI [of _ s'] exI [of _ ?es])
         (simp add: chunk_lengths_step [of "bytes2send s"])
  qed
qed

lemma length_normalize_whole [simp]: "length (normalize_whole fmt xs) = length xs"
  by (cases fmt) simp_all

lemma length_header_chunk:
  "4096 \<le> length fdata \<Longrightarrow> length (header_chunk fdata) = 4096"
  by (simp add: header_chunk_def)

lemma granularity_dvd_4096: "granularity fmt dvd 4096"
  by (cases fmt) simp_all

lemma buf_header_lookup [simp]: "buf (header_lookup ops fs s) = buf s"
  by (simp add: header_lookup_def split_beta Let_def)

lemma tx_first_chunk:
  assumes "4096 \<le> length fdata" and "bytes2send s = length fdata" and "is_first_chunk s"
    and "length (buf s) = 4096"
  shows "tx_chunk ops fs name fdata s =
    Inr ((header_lookup ops fs
            (s\<lparr>rom_format := detectRomFormat (take 4096 fdata),
               buf := header_chunk fdata,
               ctx := MD5Update ops (ctx s) (header_chunk fdata)\<rparr>))
         \<lparr>out := out (header_lookup ops fs
                   (s\<lparr>rom_format := detectRomFormat (take 4096 fdata),
                      buf := header_chunk fdata,
                      ctx := MD5Update ops (ctx s) (header_chunk fdata)\<rparr>))
                 @ [FileTxData (header_chunk fdata), ProgressLoading name 0 (length fdata)],
           bytes2send := bytes2send s - 4096,
           is_first_chunk := False\<rparr>)"
proof -
  have chunk: "(if bytes2send s > 4096 then 4096 else bytes2send s) = 4096"
    using assms by simp
  have pos: "length fdata - bytes2send s = 0"
    using assms by simp
  have rd: "FileReadAdv fdata 0 4096 (buf s) = take 4096 fdata"
    using assms by (simp add: FileReadAdv_def)
  have len: "length (take 4096 fdata) = 4096"
    using assms by simp
  have nd: "normalizeData (take 4096 fdata) 4096 (detectRomFormat (take 4096 fdata)) =
      Some (header_chunk fdata)"
    using normalizeData_whole [of "detectRomFormat (take 4096 fdata)" "take 4096 fdata"]
      granularity_dvd_4096 len
    by (simp add: header_chunk_def)
  have tk: "take 4096 (header_chunk fdata) = header_chunk fdata"
    using assms by (simp add: length_header_chunk)
  show ?thesis
    using assms(3)
    by (simp add: tx_chunk_def Let_def chunk pos rd nd tk)
qed


lemma accepted_run:
  fixes ops :: "'c md5_ops"
  defines "o0 \<equiv> \<lambda>name n index. [Printf (FileToSend name n index), SetIndex index,
             SetDownload True, ProgressReset, ProcessSS name]"
  assumes opened: "rom_files fs name = Some fdata" and len: "4096 \<le> length fdata"
    and b: "length b = 4096"
  shows "\<exists>es. list_all is_transfer es
     \<and> map length (sent_chunks es) = chunk_lengths (length fdata - 4096)
     \<and> returned (n64_rom_tx ops fs name index st b) = Some 1
     \<and> final_cfg (n64_rom_tx ops fs name index st b) =
         (if fst (header_path ops fs fdata st) then fst (snd (header_path ops fs fdata st))
          else if fst (file_path ops fs (header_chunk fdata # sent_chunks es) st)
          then fst (snd (file_path ops fs (header_chunk fdata # sent_chunks es) st))
          else fst (snd (heuristic_path fdata st)))
     \<and> events (n64_rom_tx ops fs name index st b) =
         o0 name (length fdata) index
         @ [Printf (HeaderMD5 (header_md5_hex ops fdata))]
         @ snd (snd (header_path ops fs fdata st))
         @ (if fst (header_path ops fs fdata st) then []
            else [Printf (NoInfoForHeaderHash (header_md5_hex ops fdata))])
         @ [FileTxData (header_chunk fdata), ProgressLoading name 0 (length fdata)]
         @ es
         @ [Printf (FileMD5 (stream_md5_hex ops (header_chunk fdata # sent_chunks es)))]
         @ (if fst (header_path ops fs fdata st) then []
            else snd (snd (file_path ops fs (header_chunk fdata # sent_chunks es) st))
              @ (if fst (file_path ops fs (header_chunk fdata # sent_chunks es) st) then []
                 else [Printf (NoInfoForFileHash
                         (stream_md5_hex ops (header_chunk fdata # sent_chunks es)))]
                   @ snd (snd (heuristic_path fdata st))
                   @ (if fst (heuristic_path fdata st) = 1
                      then [Printf (UnknownCICType (header_crc fdata))]
                      else if fst (heuristic_path fdata st) = 2
                      then [Printf (UnknownCartID
                              (c_string (take 3 (drop 0x3b (header_chunk fdata)))))]
                      else [])))
         @ [Printf Done, FileClose, FileMountSave name, SetDownload False, ProgressReset]
         @ (if fst (header_path ops fs fdata st)
               \<or> fst (file_path ops fs (header_chunk fdata # sent_chunks es) st) then []
            else if fst (heuristic_path fdata st) = 1 then [Info UnknownCICNotice]
            else if fst (heuristic_path fdata st) = 2 then [Info UnknownCartIDNotice]
            else [])"
proof -
  define s0 :: "'c tx_state" where "s0 =
    \<lparr>bytes2send = length fdata, is_first_chunk = True,
     rom_found_in_db = False, rom_format = UNKNOWN, ctx = MD5Init ops,
     ipl3_crc = 0, cart_id = [], region_code = CHR 0x00, revision = 0,
     buf = b, cfg = st, out = o0 name (length fdata) index\<rparr>"
  define s3 where "s3 = s0\<lparr>rom_format := detectRomFormat (take 4096 fdata),
       buf := header_chunk fdata,
       ctx := MD5Update ops (ctx s0) (header_chunk fdata)\<rparr>"
  define s4 where "s4 = header_lookup ops fs s3"
  define s1 where "s1 = s4\<lparr>out := out s4 @ [FileTxData (header_chunk fdata),
                             ProgressLoading name 0 (length fdata)],
       bytes2send := bytes2send s0 - 4096, is_first_chunk := False\<rparr>"
  define H where "H = header_path ops fs fdata st"
  define hh where "hh = header_md5_hex ops fdata"
  have c1: "tx_chunk ops fs name fdata s0 = Inr s1"
    unfolding s1_def s4_def s3_def
    by (rule tx_first_chunk) (simp_all add: s0_def len b)
  have H_eq: "detect_rom_settings_in_dbs fs hh st = H"
    by (simp add: H_def header_path_def hh_def)
  have cfg3: "cfg s3 = st"
    by (simp add: s3_def s0_def)
  have hh_eq: "md5_to_hex (fst (MD5Final ops (ctx s3))) = hh"
    by (simp add: hh_def header_md5_hex_def s3_def s0_def)
  have s4_found: "rom_found_in_db s4 = fst H"
    and s4_cfg: "cfg s4 = fst (snd H)"
    and s4_out: "out s4 = o0 name (length fdata) index @ [Printf (HeaderMD5 hh)] @ snd (snd H)
          @ (if fst H then [] else [Printf (NoInfoForHeaderHash hh)])"
    and s4_ctx: "ctx s4 = MD5Update ops (MD5Init ops) (header_chunk fdata)"
    and s4_crc: "ipl3_crc s4 = (if fst H then 0 else header_crc fdata)"
    and s4_id: "cart_id s4 = (if fst H then [] else c_string (take 3 (drop 0x3b (header_chunk fdata))))"
    and s4_region: "region_code s4 =
          (if fst H then CHR 0x00 else char_of (unat (header_chunk fdata ! 0x3e)))"
    and s4_rev: "revision s4 = (if fst H then 0 else header_chunk fdata ! 0x3f)"
    and s4_buf: "buf s4 = header_chunk fdata"
    unfolding s4_def header_lookup_def
    by (simp_all add: split_beta Let_def hh_eq cfg3 H_eq)
       (simp_all add: s3_def s0_def header_crc_def)
  have "\<exists>s' es. tx_loop ops fs name fdata s1 = Inr s' \<and> out s' = out s1 @ es
     \<and> list_all is_transfer es
     \<and> map length (sent_chunks es) = chunk_lengths (bytes2send s1)
     \<and> ctx s' = foldl (MD5Update ops) (ctx s1) (sent_chunks es)
     \<and> cfg s' = cfg s1 \<and> rom_found_in_db s' = rom_found_in_db s1
     \<and> ipl3_crc s' = ipl3_crc s1 \<and> cart_id s' = cart_id s1
     \<and> region_code s' = region_code s1 \<and> revision s' = revision s1
     \<and> length (buf s') = 4096"
    by (rule tx_loop_rest)
       (simp_all add: s1_def s4_buf length_header_chunk len s0_def)
  then obtain s' es where rest: "tx_loop ops fs name fdata s1 = Inr s'"
      "out s' = out s1 @ es" "list_all is_transfer es"
      "map length (sent_chunks es) = chunk_lengths (bytes2send s1)"
      "ctx s' = foldl (MD5Update ops) (ctx s1) (sent_chunks es)"
      "cfg s' = cfg s1" "rom_found_in_db s' = rom_found_in_db s1"
      "ipl3_crc s' = ipl3_crc s1" "cart_id s' = cart_id s1"
      "region_code s' = region_code s1" "revision s' = revision s1"
    by blast
  have nz: "bytes2send s0 \<noteq> 0"
    using len by (auto simp: s0_def)
  have loop: "tx_loop ops fs name fdata s0 = Inr s'"
    by (subst tx_loop.simps) (simp add: nz c1 rest(1))
  have run: "n64_rom_tx ops fs name index st b = tx_finish ops fs name s'"
    using loop by (simp add: n64_rom_tx_def opened s0_def o0_def)
  have e_found: "rom_found_in_db s' = fst H"
    and e_cfg: "cfg s' = fst (snd H)"
    and e_out: "out s' = o0 name (length fdata) index @ [Printf (HeaderMD5 hh)] @ snd (snd H)
          @ (if fst H then [] else [Printf (NoInfoForHeaderHash hh)])
          @ [FileTxData (header_chunk fdata), ProgressLoading name 0 (length fdata)] @ es"
    and e_ctx: "ctx s' = foldl (MD5Update ops) (MD5Init ops) (header_chunk fdata # sent_chunks es)"
    and e_crc: "ipl3_crc s' = (if fst H then 0 else header_crc fdata)"
    and e_id: "cart_id s' = (if fst H then [] else c_string (take 3 (drop 0x3b (header_chunk fdata))))"
    and e_region: "region_code s' =
          (if fst H then CHR 0x00 else char_of (unat (header_chunk fdata ! 0x3e)))"
    and e_rev: "revision s' = (if fst H then 0 else header_chunk fdata ! 0x3f)"
    using rest
    by (simp_all add: s1_def s4_found s4_cfg s4_out s4_ctx s4_crc s4_id s4_region s4_rev)
  have lens: "map length (sent_chunks es) = chunk_lengths (length fdata - 4096)"
    using rest(4) by (simp add: s1_def s0_def)
  have fh: "md5_to_hex (fst (MD5Final ops (ctx s'))) =
      stream_md5_hex ops (header_chunk fdata # sent_chunks es)"
    by (simp only: e_ctx stream_md5_hex_def)
  show ?thesis
  proof (intro exI [of _ es] conjI)
    show "list_all is_transfer es" by (rule rest(3))
    show "map length (sent_chunks es) = chunk_lengths (length fdata - 4096)" by (rule lens)
    show "returned (n64_rom_tx ops fs name index st b) = Some 1"
      by (simp add: run tx_finish_def split_beta Let_def)
  next
    show "final_cfg (n64_rom_tx ops fs name index st b) =
         (if fst (header_path ops fs fdata st) then fst (snd (header_path ops fs fdata st))
          else if fst (file_path ops fs (header_chunk fdata # sent_chunks es) st)
          then fst (snd (file_path ops fs (header_chunk fdata # sent_chunks es) st))
          else fst (snd (heuristic_path fdata st)))"
    proof (cases "fst H")
      case True
      then show ?thesis
        by (simp add: run tx_finish_def split_beta Let_def e_found e_cfg H_def [symmetric])
    next
      case False
      then have st: "fst (snd H) = st"
        using dbs_miss(1) [of fs "header_md5_hex ops fdata" st]
        by (simp add: H_def header_path_def)
      have F: "detect_rom_settings_in_dbs fs (md5_to_hex (fst (MD5Final ops (ctx s')))) st =
          file_path ops fs (header_chunk fdata # sent_chunks es) st"
        by (simp only: fh file_path_def)
      show ?thesis
      proof (cases "fst (file_path ops fs (header_chunk fdata # sent_chunks es) st)")
        case True
        with False show ?thesis
          by (simp add: run tx_finish_def split_beta Let_def e_found e_cfg st F
              H_def [symmetric])
      next
        case nf: False
        then have stF: "fst (snd (file_path ops fs (header_chunk fdata # sent_chunks es) st)) = st"
          using dbs_miss(1) [of fs _ st] by (simp add: file_path_def)
        from False nf show ?thesis
          by (simp add: run tx_finish_def split_beta Let_def e_found e_cfg st F stF
              H_def [symmetric] e_crc e_id e_region e_rev heuristic_path_def)
      qed
    qed
  next
    show "events (n64_rom_tx ops fs name index st b) =
         o0 name (length fdata) index
         @ [Printf (HeaderMD5 (header_md5_hex ops fdata))]
         @ snd (snd (header_path ops fs fdata st))
         @ (if fst (header_path ops fs fdata st) then []
            else [Printf (NoInfoForHeaderHash (header_md5_hex ops fdata))])
         @ [FileTxData (header_chunk fdata), ProgressLoading name 0 (length fdata)]
         @ es
         @ [Printf (FileMD5 (stream_md5_hex ops (header_chunk fdata # sent_chunks es)))]
         @ (if fst (header_path ops fs fdata st) then []
            else snd (snd (file_path ops fs (header_chunk fdata # sent_chunks es) st))
              @ (if fst (file_path ops fs (header_chunk fdata # sent_chunks es) st) then []
                 else [Printf (NoInfoForFileHash
                         (stream_md5_hex ops (header_chunk fdata # sent_chunks es)))]
                   @ snd (snd (heuristic_path fdata st))
                   @ (if fst (heuristic_path fdata st) = 1
                      then [Printf (UnknownCICType (header_crc fdata))]
                      else if fst (heuristic_path fdata st) = 2
                      then [Printf (UnknownCartID
                              (c_string (take 3 (drop 0x3b (header_chunk fdata)))))]
                      else [])))
         @ [Printf Done, FileClose, FileMountSave name, SetDownload False, ProgressReset]
         @ (if fst (header_path ops fs fdata st)
               \<or> fst (file_path ops fs (header_chunk fdata # sent_chunks es) st) then []
            else if fst (heuristic_path fdata st) = 1 then [Info UnknownCICNotice]
            else if fst (heuristic_path fdata st) = 2 then [Info UnknownCartIDNotice]
            else [])"
    proof (cases "fst H")
      case True
      then show ?thesis
        by (simp add: run tx_finish_def split_beta Let_def e_found e_cfg e_out fh
            H_def [symmetric] hh_def [symmetric])
    next
      case False
      then have st: "fst (snd H) = st"
        using dbs_miss(1) [of fs "header_md5_hex ops fdata" st]
        by (simp add: H_def header_path_def)
      have F: "detect_rom_settings_in_dbs fs
          (stream_md5_hex ops (header_chunk fdata # sent_chunks es)) st =
          file_path ops fs (header_chunk fdata # sent_chunks es) st"
        by (simp only: file_path_def)
      show ?thesis
      proof (cases "fst (file_path ops fs (header_chunk fdata # sent_chunks es) st)")
        case True
        with False show ?thesis
          by (simp add: run tx_finish_def split_beta Let_def e_found e_cfg e_out fh st F
              H_def [symmetric] hh_def [symmetric])
      next
        case nf: False
        then have stF: "fst (snd (file_path ops fs (header_chunk fdata # sent_chunks es) st)) = st"
          using dbs_miss(1) [of fs _ st] by (simp add: file_path_def)
        have G: "detect_rom_settings_from_first_chunk
            (c_string (take 3 (drop 0x3b (header_chunk fdata))))
            (char_of (unat (header_chunk fdata ! 0x3e)))
            (header_chunk fdata ! 0x3f) (header_crc fdata) st = heuristic_path fdata st"
          by (simp only: heuristic_path_def)
        from False nf show ?thesis
          by (simp add: run tx_finish_def split_beta Let_def e_found e_cfg e_out fh st F stF
              H_def [symmetric] hh_def [symmetric] e_crc e_id e_region e_rev G)
      qed
    qed
  qed
qed

lemma paths_quiet [simp]:
  "sent_chunks (snd (snd (header_path ops fs fdata st))) = []"
  "notices (snd (snd (header_path ops fs fdata st))) = []"
  "header_md5s (snd (snd (header_path ops fs fdata st))) = []"
  "file_md5s (snd (snd (header_path ops fs fdata st))) = []"
  "sent_chunks (snd (snd (file_path ops fs cs st))) = []"
  "notices (snd (snd (file_path ops fs cs st))) = []"
  "header_md5s (snd (snd (file_path ops fs cs st))) = []"
  "file_md5s (snd (snd (file_path ops fs cs st))) = []"
  "sent_chunks (snd (snd (heuristic_path fdata st))) = []"
  "notices (snd (snd (heuristic_path fdata st))) = []"
  "header_md5s (snd (snd (heuristic_path fdata st))) = []"
  "file_md5s (snd (snd (heuristic_path fdata st))) = []"
  "data_files_opened (snd (snd (heuristic_path fdata st))) = []"
  by (simp_all add: header_path_def file_path_def heuristic_path_def dbs_quiet heuristic_quiet)

lemma paths_miss:
  "\<not> fst (header_path ops fs fdata st) \<Longrightarrow>
     status_writes (snd (snd (header_path ops fs fdata st))) = []"
  "\<not> fst (file_path ops fs cs st) \<Longrightarrow> status_writes (snd (snd (file_path ops fs cs st))) = []"
  by (simp_all add: header_path_def file_path_def dbs_miss)

lemma chunk_lengths_full:
  "4096 \<le> n \<Longrightarrow> chunk_lengths n = 4096 # chunk_lengths (n - 4096)"
  by (subst chunk_lengths.simps) simp

lemma chunk_lengths_short:
  "0 < n \<Longrightarrow> n < 4096 \<Longrightarrow> chunk_lengths n = [n]"
  by (subst chunk_lengths.simps) (simp add: chunk_lengths_0)

lemma chunk_lengths_closed:
  "chunk_lengths n =
     replicate (n div 4096) 4096 @ (if n mod 4096 = 0 then [] else [n mod 4096])"
proof (induction n rule: chunk_lengths.induct)
  case (1 n)
  show ?case
  proof (cases "n = 0")
    case True
    then show ?thesis by (simp add: chunk_lengths_0)
  next
    case False
    show ?thesis
    proof (cases "n > 4096")
      case True
      then have d: "n div 4096 = Suc ((n - 4096) div 4096)" "n mod 4096 = (n - 4096) mod 4096"
        by (simp_all add: le_div_geq le_mod_geq)
      from "1.IH" False True
      have "chunk_lengths (n - 4096) =
          replicate ((n - 4096) div 4096) 4096
          @ (if (n - 4096) mod 4096 = 0 then [] else [(n - 4096) mod 4096])"
        by simp
      with True False d show ?thesis
        by (simp add: chunk_lengths_full [of n])
    next
      case le: False
      show ?thesis
      proof (cases "n = 4096")
        case True
        have "chunk_lengths 4096 = [4096]"
          using chunk_lengths_full [of 4096] by (simp add: chunk_lengths_0)
        with True show ?thesis by simp
      next
        case False
        with le \<open>n \<noteq> 0\<close> have "n < 4096" by simp
        with \<open>n \<noteq> 0\<close> show ?thesis
          by (simp add: chunk_lengths_short [of n])
      qed
    qed
  qed
qed

lemma accepted_projections:
  assumes opened: "rom_files fs name = Some fdata" and len: "4096 \<le> length fdata"
    and b: "length b = 4096"
  shows "returned (n64_rom_tx ops fs name index st b) = Some 1"
    and "\<exists>cs. sent_chunks (events (n64_rom_tx ops fs name index st b)) = header_chunk fdata # cs"
    and "map length (sent_chunks (events (n64_rom_tx ops fs name index st b))) =
           chunk_lengths (length fdata)"
    and "header_md5s (events (n64_rom_tx ops fs name index st b)) = [header_md5_hex ops fdata]"
    and "file_md5s (events (n64_rom_tx ops fs name index st b)) =
           [stream_md5_hex ops (sent_chunks (events (n64_rom_tx ops fs name index st b)))]"
    and "final_cfg (n64_rom_tx ops fs name index st b) =
         (if fst (header_path ops fs fdata st) then fst (snd (header_path ops fs fdata st))
          else if fst (file_path ops fs
                         (sent_chunks (events (n64_rom_tx ops fs name index st b))) st)
          then fst (snd (file_path ops fs
                         (sent_chunks (events (n64_rom_tx ops fs name index st b))) st))
          else fst (snd (heuristic_path fdata st)))"
    and "status_writes (events (n64_rom_tx ops fs name index st b)) =
         (if fst (header_path ops fs fdata st)
          then status_writes (snd (snd (header_path ops fs fdata st)))
          else if fst (file_path ops fs
                         (sent_chunks (events (n64_rom_tx ops fs name index st b))) st)
          then status_writes (snd (snd (file_path ops fs
                         (sent_chunks (events (n64_rom_tx ops fs name index st b))) st)))
          else status_writes (snd (snd (heuristic_path fdata st))))"
    and "data_files_opened (events (n64_rom_tx ops fs name index st b)) =
         data_files_opened (snd (snd (header_path ops fs fdata st)))
         @ (if fst (header_path ops fs fdata st) then []
            else data_files_opened (snd (snd (file_path ops fs
                   (sent_chunks (events (n64_rom_tx ops fs name index st b))) st))))"
    and "notices (events (n64_rom_tx ops fs name index st b)) =
         (if fst (header_path ops fs fdata st)
             \<or> fst (file_path ops fs
                      (sent_chunks (events (n64_rom_tx ops fs name index st b))) st) then []
          else if fst (heuristic_path fdata st) = 1 then [UnknownCICNotice]
          else if fst (heuristic_path fdata st) = 2 then [UnknownCartIDNotice]
          else [])"
proof -
  from accepted_run [OF opened len b, of ops index st]
  obtain es where tr: "list_all is_transfer es"
    and ls: "map length (sent_chunks es) = chunk_lengths (length fdata - 4096)"
    and ret: "returned (n64_rom_tx ops fs name index st b) = Some 1"
    and fc: "final_cfg (n64_rom_tx ops fs name index st b) =
         (if fst (header_path ops fs fdata st) then fst (snd (header_path ops fs fdata st))
          else if fst (file_path ops fs (header_chunk fdata # sent_chunks es) st)
          then fst (snd (file_path ops fs (header_chunk fdata # sent_chunks es) st))
          else fst (snd (heuristic_path fdata st)))"
    and ev: "events (n64_rom_tx ops fs name index st b) =
         [Printf (FileToSend name (length fdata) index), SetIndex index,
             SetDownload True, ProgressReset, ProcessSS name]
         @ [Printf (HeaderMD5 (header_md5_hex ops fdata))]
         @ snd (snd (header_path ops fs fdata st))
         @ (if fst (header_path ops fs fdata st) then []
            else [Printf (NoInfoForHeaderHash (header_md5_hex ops fdata))])
         @ [FileTxData (header_chunk fdata), ProgressLoading name 0 (length fdata)]
         @ es
         @ [Printf (FileMD5 (stream_md5_hex ops (header_chunk fdata # sent_chunks es)))]
         @ (if fst (header_path ops fs fdata st) then []
            else snd (snd (file_path ops fs (header_chunk fdata # sent_chunks es) st))
              @ (if fst (file_path ops fs (header_chunk fdata # sent_chunks es) st) then []
                 else [Printf (NoInfoForFileHash
                         (stream_md5_hex ops (header_chunk fdata # sent_chunks es)))]
                   @ snd (snd (heuristic_path fdata st))
                   @ (if fst (heuristic_path fdata st) = 1
                      then [Printf (UnknownCICType (header_crc fdata))]
                      else if fst (heuristic_path fdata st) = 2
                      then [Printf (UnknownCartID
                              (c_string (take 3 (drop 0x3b (header_chunk fdata)))))]
                      else [])))
         @ [Printf Done, FileClose, FileMountSave name, SetDownload False, ProgressReset]
         @ (if fst (header_path ops fs fdata st)
               \<or> fst (file_path ops fs (header_chunk fdata # sent_chunks es) st) then []
            else if fst (heuristic_path fdata st) = 1 then [Info UnknownCICNotice]
            else if fst (heuristic_path fdata st) = 2 then [Info UnknownCartIDNotice]
            else [])"
    by blast
  note q = transfer_quiet [OF tr]
  have cs: "sent_chunks (events (n64_rom_tx ops fs name index st b)) =
      header_chunk fdata # sent_chunks es"
    unfolding ev by simp
  show "returned (n64_rom_tx ops fs name index st b) = Some 1" by (rule ret)
  show "\<exists>cs. sent_chunks (events (n64_rom_tx ops fs name index st b)) = header_chunk fdata # cs"
    using cs by blast
  show "map length (sent_chunks (events (n64_rom_tx ops fs name index st b))) =
           chunk_lengths (length fdata)"
    using len ls by (simp add: cs chunk_lengths_full [of "length fdata"] length_header_chunk)
  show "header_md5s (events (n64_rom_tx ops fs name index st b)) = [header_md5_hex ops fdata]"
    unfolding ev using q by simp
  show "file_md5s (events (n64_rom_tx ops fs name index st b)) =
           [stream_md5_hex ops (sent_chunks (events (n64_rom_tx ops fs name index st b)))]"
    unfolding cs unfolding ev using q by simp
  show "final_cfg (n64_rom_tx ops fs name index st b) =
         (if fst (header_path ops fs fdata st) then fst (snd (header_path ops fs fdata st))
          else if fst (file_path ops fs
                         (sent_chunks (events (n64_rom_tx ops fs name index st b))) st)
          then fst (snd (file_path ops fs
                         (sent_chunks (events (n64_rom_tx ops fs name index st b))) st))
          else fst (snd (heuristic_path fdata st)))"
    unfolding cs by (rule fc)
  show "status_writes (events (n64_rom_tx ops fs name index st b)) =
         (if fst (header_path ops fs fdata st)
          then status_writes (snd (snd (header_path ops fs fdata st)))
          else if fst (file_path ops fs
                         (sent_chunks (events (n64_rom_tx ops fs name index st b))) st)
          then status_writes (snd (snd (file_path ops fs
                         (sent_chunks (events (n64_rom_tx ops fs name index st b))) st)))
          else status_writes (snd (snd (heuristic_path fdata st))))"
    unfolding cs unfolding ev using q by (simp add: status_writes_append paths_miss)
  show "data_files_opened (events (n64_rom_tx ops fs name index st b)) =
         data_files_opened (snd (snd (header_path ops fs fdata st)))
         @ (if fst (header_path ops fs fdata st) then []
            else data_files_opened (snd (snd (file_path ops fs
                   (sent_chunks (events (n64_rom_tx ops fs name index st b))) st))))"
    unfolding cs unfolding ev using q by simp
  show "notices (events (n64_rom_tx ops fs name index st b)) =
         (if fst (header_path ops fs fdata st)
             \<or> fst (file_path ops fs
                      (sent_chunks (events (n64_rom_tx ops fs name index st b))) st) then []
          else if fst (heuristic_path fdata st) = 1 then [UnknownCICNotice]
          else if fst (heuristic_path fdata st) = 2 then [UnknownCartIDNotice]
          else [])"
    unfolding cs unfolding ev using q by simp
qed

subsection \<open>A source shorter than one chunk\<close>

lemma short_run:
  assumes "rom_files fs name = Some fdata" and "0 < length fdata" and "length fdata < 4096"
  shows "n64_rom_tx ops fs name index st b =
    \<lparr>returned = Some 0, final_cfg = st, final_buf = fdata @ drop (length fdata) b,
     events = [Printf (FileToSend name (length fdata) index), SetIndex index,
               SetDownload True, ProgressReset, ProcessSS name, Printf MustBeAtLeast4096]\<rparr>"
  using assms
  by (simp add: n64_rom_tx_def Let_def)
     (subst tx_loop.simps, simp add: tx_chunk_def FileReadAdv_def Let_def)

lemma empty_run_returns:
  assumes "rom_files fs name = Some []"
  shows "returned (n64_rom_tx ops fs name index st b) = Some 1"
  using assms
  by (simp add: n64_rom_tx_def Let_def)
     (subst tx_loop.simps, simp add: tx_finish_def split_beta Let_def)

text \<open>
  C7, as the code has it. For every source of 1 to 4095 bytes, \<^verbatim>\<open>n64_rom_tx\<close> returns 0
  with the configuration store as it was and no chunk sent; by then it has printed the
  file line, selected the index, signalled the start of the transfer, reset the
  progress display and processed the save state, and it has printed that the ROM is
  too short. These are all its events.
\<close>

theorem short_source_aborts:
  assumes "rom_files fs name = Some fdata" and "0 < length fdata" and "length fdata < 4096"
  shows "returned (n64_rom_tx ops fs name index st b) = Some 0
    \<and> final_cfg (n64_rom_tx ops fs name index st b) = st
    \<and> status_writes (events (n64_rom_tx ops fs name index st b)) = []
    \<and> sent_chunks (events (n64_rom_tx ops fs name index st b)) = []
    \<and> events (n64_rom_tx ops fs name index st b) =
        [Printf (FileToSend name (length fdata) index), SetIndex index, SetDownload True,
         ProgressReset, ProcessSS name, Printf MustBeAtLeast4096]"
  by (simp add: short_run [OF assms])

theorem short_source_aborts_witness:
  "rom_files \<lparr>rom_files = [''short.z64'' \<mapsto> replicate 2048 0], data_files = Map.empty\<rparr>
     ''short.z64'' = Some (replicate 2048 0)
   \<and> 0 < length (replicate 2048 (0 :: byte)) \<and> length (replicate 2048 (0 :: byte)) < 4096
   \<and> returned (n64_rom_tx counting_md5
        \<lparr>rom_files = [''short.z64'' \<mapsto> replicate 2048 0], data_files = Map.empty\<rparr>
        ''short.z64'' 0 status_all_zero (replicate 4096 0)) = Some 0
   \<and> status_writes (events (n64_rom_tx counting_md5
        \<lparr>rom_files = [''short.z64'' \<mapsto> replicate 2048 0], data_files = Map.empty\<rparr>
        ''short.z64'' 0 status_all_zero (replicate 4096 0))) = []
   \<and> sent_chunks (events (n64_rom_tx counting_md5
        \<lparr>rom_files = [''short.z64'' \<mapsto> replicate 2048 0], data_files = Map.empty\<rparr>
        ''short.z64'' 0 status_all_zero (replicate 4096 0))) = []"
  using short_source_aborts [of
      "\<lparr>rom_files = [''short.z64'' \<mapsto> replicate 2048 0], data_files = Map.empty\<rparr>"
      "''short.z64''" "replicate 2048 0" counting_md5 0 status_all_zero "replicate 4096 0"]
  by simp

text \<open>
  C7 as stated fails. On a source of 2048 bytes the index has been selected, the start
  of the transfer signalled and the save state processed when the function returns 0,
  and the end of the transfer is not signalled. On an empty source the loop body, which
  holds the length check, is not entered, and the function returns 1.
\<close>

theorem short_source_has_side_effects:
  "returned (n64_rom_tx counting_md5
        \<lparr>rom_files = [''short.z64'' \<mapsto> replicate 2048 0], data_files = Map.empty\<rparr>
        ''short.z64'' 0 status_all_zero (replicate 4096 0)) = Some 0
   \<and> SetIndex 0 \<in> set (events (n64_rom_tx counting_md5
        \<lparr>rom_files = [''short.z64'' \<mapsto> replicate 2048 0], data_files = Map.empty\<rparr>
        ''short.z64'' 0 status_all_zero (replicate 4096 0)))
   \<and> SetDownload True \<in> set (events (n64_rom_tx counting_md5
        \<lparr>rom_files = [''short.z64'' \<mapsto> replicate 2048 0], data_files = Map.empty\<rparr>
        ''short.z64'' 0 status_all_zero (replicate 4096 0)))
   \<and> ProcessSS ''short.z64'' \<in> set (events (n64_rom_tx counting_md5
        \<lparr>rom_files = [''short.z64'' \<mapsto> replicate 2048 0], data_files = Map.empty\<rparr>
        ''short.z64'' 0 status_all_zero (replicate 4096 0)))
   \<and> SetDownload False \<notin> set (events (n64_rom_tx counting_md5
        \<lparr>rom_files = [''short.z64'' \<mapsto> replicate 2048 0], data_files = Map.empty\<rparr>
        ''short.z64'' 0 status_all_zero (replicate 4096 0)))
   \<and> returned (n64_rom_tx counting_md5
        \<lparr>rom_files = [''empty.z64'' \<mapsto> []], data_files = Map.empty\<rparr>
        ''empty.z64'' 0 status_all_zero (replicate 4096 0)) = Some 1"
proof -
  have "n64_rom_tx counting_md5
        \<lparr>rom_files = [''short.z64'' \<mapsto> replicate 2048 0], data_files = Map.empty\<rparr>
        ''short.z64'' 0 status_all_zero (replicate 4096 0) =
    \<lparr>returned = Some 0, final_cfg = status_all_zero,
     final_buf = replicate 2048 0 @ drop (length (replicate 2048 (0 :: byte))) (replicate 4096 0),
     events = [Printf (FileToSend ''short.z64'' (length (replicate 2048 (0 :: byte))) 0),
               SetIndex 0, SetDownload True, ProgressReset, ProcessSS ''short.z64'',
               Printf MustBeAtLeast4096]\<rparr>"
    by (rule short_run) simp_all
  moreover have "returned (n64_rom_tx counting_md5
        \<lparr>rom_files = [''empty.z64'' \<mapsto> []], data_files = Map.empty\<rparr>
        ''empty.z64'' 0 status_all_zero (replicate 4096 0)) = Some 1"
    by (rule empty_run_returns) simp
  ultimately show ?thesis by simp
qed

subsection \<open>The chunks of an accepted source\<close>

lemma accepted_chunk_lengths:
  assumes "rom_files fs name = Some fdata" and "4096 \<le> length fdata" and "length b = 4096"
  shows "map length (sent_chunks (events (n64_rom_tx ops fs name index st b))) =
     replicate (length fdata div 4096) 4096
     @ (if length fdata mod 4096 = 0 then [] else [length fdata mod 4096])"
  by (simp only: accepted_projections(3) [OF assms] chunk_lengths_closed)

lemma tags_fit_no_data_files: "tags_fit \<lparr>rom_files = rf, data_files = Map.empty\<rparr>"
  by (simp add: tags_fit_def DB_FILE_NAMES_def)

text \<open>
  C9, as the code has it. For every accepted source (at least 4096 bytes), with data
  files whose tag words fit the tag array, the run makes no access outside the
  4096-byte buffer and returns 1. The chunks it normalises and sends are
  \<open>size div 4096\<close> chunks of 4096 bytes, followed by one of \<open>size mod 4096\<close> bytes when
  that is not zero; and every chunk's length is a multiple of 4 exactly when the size
  of the source is.
\<close>

theorem chunk_lengths_of_accepted_source:
  assumes "rom_files fs name = Some fdata" and "4096 \<le> length fdata" and "length b = 4096"
    and "tags_fit fs"
  shows "returned (n64_rom_tx ops fs name index st b) = Some 1
    \<and> map length (sent_chunks (events (n64_rom_tx ops fs name index st b))) =
        replicate (length fdata div 4096) 4096
        @ (if length fdata mod 4096 = 0 then [] else [length fdata mod 4096])
    \<and> ((\<forall>c \<in> set (sent_chunks (events (n64_rom_tx ops fs name index st b))). 4 dvd length c)
         = (4 dvd length fdata))"
proof -
  let ?cs = "sent_chunks (events (n64_rom_tx ops fs name index st b))"
  have ls: "map length ?cs = replicate (length fdata div 4096) 4096
        @ (if length fdata mod 4096 = 0 then [] else [length fdata mod 4096])"
    by (rule accepted_chunk_lengths [OF assms(1,2,3)])
  have "(\<forall>c \<in> set ?cs. 4 dvd length c) = (\<forall>l \<in> set (map length ?cs). 4 dvd l)"
    by simp
  also have "\<dots> = (4 dvd length fdata mod 4096)"
    unfolding ls by auto
  also have "\<dots> = (4 dvd length fdata)"
    by (rule dvd_mod_iff) simp
  finally have "(\<forall>c \<in> set ?cs. 4 dvd length c) = (4 dvd length fdata)" .
  with ls accepted_projections(1) [OF assms(1,2,3)] show ?thesis by blast
qed

theorem chunk_lengths_of_accepted_source_witness:
  "rom_files \<lparr>rom_files = [''two.z64'' \<mapsto> replicate 8192 0], data_files = Map.empty\<rparr>
     ''two.z64'' = Some (replicate 8192 0)
   \<and> 4096 \<le> length (replicate 8192 (0 :: byte))
   \<and> length (replicate 4096 (0 :: byte)) = 4096
   \<and> tags_fit \<lparr>rom_files = [''two.z64'' \<mapsto> replicate 8192 0], data_files = Map.empty\<rparr>
   \<and> returned (n64_rom_tx counting_md5
        \<lparr>rom_files = [''two.z64'' \<mapsto> replicate 8192 0], data_files = Map.empty\<rparr>
        ''two.z64'' 0 status_all_zero (replicate 4096 0)) = Some 1
   \<and> map length (sent_chunks (events (n64_rom_tx counting_md5
        \<lparr>rom_files = [''two.z64'' \<mapsto> replicate 8192 0], data_files = Map.empty\<rparr>
        ''two.z64'' 0 status_all_zero (replicate 4096 0)))) = [4096, 4096]"
  using chunk_lengths_of_accepted_source [of
      "\<lparr>rom_files = [''two.z64'' \<mapsto> replicate 8192 0], data_files = Map.empty\<rparr>"
      "''two.z64''" "replicate 8192 0" "replicate 4096 0" counting_md5 0 status_all_zero]
  by (simp add: numeral_2_eq_2 tags_fit_no_data_files)

text \<open>
  C9 as stated fails. A source of 4097 bytes is accepted, and its second chunk has
  length 1, which is not a multiple of 4. On a chunk whose length is not a multiple of
  the granularity the loops of \<^verbatim>\<open>normalizeData\<close> run one more group: they read and write
  the bytes of the buffer after the chunk's length.
\<close>

theorem odd_source_has_odd_chunk:
  "map length (sent_chunks (events (n64_rom_tx counting_md5
        \<lparr>rom_files = [''odd.z64'' \<mapsto> replicate 4097 0], data_files = Map.empty\<rparr>
        ''odd.z64'' 0 status_all_zero (replicate 4096 0)))) = [4096, 1]
   \<and> \<not> 4 dvd (1 :: nat)
   \<and> normalizeData [1, 2, 3, 4] 1 BYTE_SWAPPED = Some [2, 1, 3, 4]
   \<and> normalizeData [1, 2, 3, 4, 5, 6, 7, 8] 5 LITTLE_ENDIAN = Some [4, 3, 2, 1, 8, 7, 6, 5]"
proof -
  have "map length (sent_chunks (events (n64_rom_tx counting_md5
        \<lparr>rom_files = [''odd.z64'' \<mapsto> replicate 4097 0], data_files = Map.empty\<rparr>
        ''odd.z64'' 0 status_all_zero (replicate 4096 0)))) =
     replicate (length (replicate 4097 (0 :: byte)) div 4096) 4096
     @ (if length (replicate 4097 (0 :: byte)) mod 4096 = 0 then []
        else [length (replicate 4097 (0 :: byte)) mod 4096])"
    by (rule accepted_chunk_lengths) simp_all
  then show ?thesis
    by (simp add: swap_pairs_loop.simps reverse_quads_loop.simps)
qed

subsection \<open>When a search finds a record\<close>

lemma scan_lines_found:
  "fst (scan_lines h ls st) = list_ex (line_matches h) ls"
  by (induction ls)
     (simp_all add: split_beta Let_def line_matches_def split: option.splits)

lemma detect_in_db_found:
  "fst (detect_rom_settings_in_db fs h n st) =
     (case data_files fs n of None \<Rightarrow> False | Some ls \<Rightarrow> list_ex (line_matches h) ls)"
  by (simp add: detect_rom_settings_in_db_def split_beta scan_lines_found split: option.splits)

lemma detect_in_files_found:
  "fst (detect_in_files fs h ns st) =
     list_ex (\<lambda>n. case data_files fs n of None \<Rightarrow> False
                   | Some ls \<Rightarrow> list_ex (line_matches h) ls) ns"
  by (induction ns arbitrary: st)
     (simp_all add: split_beta Let_def detect_in_db_found)

lemma dbs_found:
  "fst (detect_rom_settings_in_dbs fs h st) =
     list_ex (\<lambda>n. case data_files fs n of None \<Rightarrow> False
                   | Some ls \<Rightarrow> list_ex (line_matches h) ls) DB_FILE_NAMES"
  by (simp add: detect_rom_settings_in_dbs_def detect_in_files_found)

lemma no_data_files_miss:
  "\<not> fst (detect_rom_settings_in_dbs \<lparr>rom_files = rf, data_files = Map.empty\<rparr> h st)"
  by (simp add: dbs_found DB_FILE_NAMES_def)

subsection \<open>The stand-in hash\<close>

lemma counting_md5_simps [simp]:
  "MD5Init counting_md5 = 0"
  "MD5Update counting_md5 c bytes = c + length bytes"
  "MD5Final counting_md5 c = (replicate 16 (of_nat (c div 4096)), 0)"
  by (simp_all add: counting_md5_def)

lemma counting_md5_foldl:
  "foldl (MD5Update counting_md5) c cs = c + sum_list (map length cs)"
  by (induction cs arbitrary: c) simp_all

lemma hex_of_ones: "md5_to_hex (replicate 16 1) = ''01010101010101010101010101010101''"
  by code_simp

lemma hex_of_twos: "md5_to_hex (replicate 16 2) = ''02020202020202020202020202020202''"
  by code_simp

lemma counting_header_hex:
  "4096 \<le> length fdata \<Longrightarrow>
   header_md5_hex counting_md5 fdata = ''01010101010101010101010101010101''"
  by (simp add: header_md5_hex_def length_header_chunk hex_of_ones)

lemma counting_stream_hex_4096:
  "map length cs = [4096] \<Longrightarrow>
   stream_md5_hex counting_md5 cs = ''01010101010101010101010101010101''"
  by (simp add: stream_md5_hex_def counting_md5_foldl hex_of_ones)

lemma counting_stream_hex_8192:
  "map length cs = [4096, 4096] \<Longrightarrow>
   stream_md5_hex counting_md5 cs = ''02020202020202020202020202020202''"
  by (simp add: stream_md5_hex_def counting_md5_foldl hex_of_twos)

subsection \<open>A source of zeros\<close>

lemma read_u32_zeros: "off + 3 < n \<Longrightarrow> read_u32 (replicate n 0) off = 0"
  by (simp add: read_u32_def)

lemma header_chunk_zeros:
  "4096 \<le> n \<Longrightarrow> header_chunk (replicate n 0) = replicate 4096 0"
  by (simp add: header_chunk_def detectRomFormat_def Let_def read_u32_zeros min_def)

lemma foldl_add_zero:
  "\<forall>i \<in> set xs. f i = (0 :: 64 word) \<Longrightarrow> foldl (\<lambda>acc i. acc + f i) c xs = c"
  by (induction xs arbitrary: c) simp_all

lemma header_crc_zeros: "4096 \<le> n \<Longrightarrow> header_crc (replicate n 0) = 0"
proof -
  assume n: "4096 \<le> n"
  have z: "\<forall>i \<in> set [16..<1024].
      (ucast (read_u32 (replicate 4096 (0 :: byte)) (4 * i)) :: 64 word) = 0"
  proof
    fix i :: nat
    assume "i \<in> set [16..<1024]"
    then have "i < 1024" by (simp only: set_upt atLeastLessThan_iff)
    then have "4 * i + 3 < 4096" by simp
    then show "(ucast (read_u32 (replicate 4096 (0 :: byte)) (4 * i)) :: 64 word) = 0"
      by (simp only: read_u32_zeros ucast_0)
  qed
  have "add_ipl3_words (replicate 4096 0) 0 = 0"
    unfolding add_ipl3_words_def by (rule foldl_add_zero [OF z])
  with n show ?thesis
    by (simp only: header_crc_def header_chunk_zeros)
qed

lemma cic_switch_zero: "cic_switch 0 sys = None"
  by (simp add: cic_switch_def)

subsection \<open>The two digests\<close>

lemma foldl_update_concat:
  assumes "\<forall>c x y. upd (upd c x) y = upd c (x @ y)"
  shows "foldl upd (upd c x) cs = upd c (x @ concat cs)"
  using assms by (induction cs arbitrary: x) simp_all

text \<open>
  C2. On every accepted source, with data files whose tag words fit the tag array, so
  that the run reaches both digests, the one header digest printed is the digest of the
  first chunk sent alone, hashed from a fresh context; the one file digest printed is
  the digest of the chunks sent, fed one after the other to a fresh context that is
  finalised once, at the end, with no copy taken: finalising the copy after the first
  chunk leaves the live context as it was. When the hash's \<^verbatim>\<open>MD5Update\<close> does not
  depend on how the bytes are split into calls, the file digest is the digest of the
  whole stream fed in one call.
\<close>

theorem snapshot_leaves_stream_digest:
  assumes "rom_files fs name = Some fdata" and "4096 \<le> length fdata" and "length b = 4096"
    and "tags_fit fs"
  shows "header_md5s (events (n64_rom_tx ops fs name index st b)) =
      [md5_to_hex (fst (MD5Final ops (MD5Update ops (MD5Init ops)
         (hd (sent_chunks (events (n64_rom_tx ops fs name index st b)))))))]
    \<and> file_md5s (events (n64_rom_tx ops fs name index st b)) =
      [md5_to_hex (fst (MD5Final ops (foldl (MD5Update ops) (MD5Init ops)
         (sent_chunks (events (n64_rom_tx ops fs name index st b))))))]
    \<and> ((\<forall>c x y. MD5Update ops (MD5Update ops c x) y = MD5Update ops c (x @ y)) \<longrightarrow>
        file_md5s (events (n64_rom_tx ops fs name index st b)) =
          [md5_to_hex (fst (MD5Final ops (MD5Update ops (MD5Init ops)
             (concat (sent_chunks (events (n64_rom_tx ops fs name index st b)))))))])"
proof -
  let ?r = "n64_rom_tx ops fs name index st b"
  from accepted_projections(2) [OF assms(1,2,3), of ops index st]
  obtain cs where cs: "sent_chunks (events ?r) = header_chunk fdata # cs" by blast
  have h: "header_md5s (events ?r) = [header_md5_hex ops fdata]"
    by (rule accepted_projections(4) [OF assms(1,2,3)])
  have f: "file_md5s (events ?r) = [stream_md5_hex ops (sent_chunks (events ?r))]"
    by (rule accepted_projections(5) [OF assms(1,2,3)])
  have whole: "foldl (MD5Update ops) (MD5Init ops) (sent_chunks (events ?r)) =
      MD5Update ops (MD5Init ops) (concat (sent_chunks (events ?r)))"
    if "\<forall>c x y. MD5Update ops (MD5Update ops c x) y = MD5Update ops c (x @ y)"
    using foldl_update_concat [OF that, of "MD5Init ops" "header_chunk fdata" cs]
    by (simp add: cs)
  show ?thesis
    using h f whole
    by (simp add: header_md5_hex_def stream_md5_hex_def cs)
qed

theorem snapshot_leaves_stream_digest_witness:
  "rom_files \<lparr>rom_files = [''two.z64'' \<mapsto> replicate 8192 0], data_files = Map.empty\<rparr>
     ''two.z64'' = Some (replicate 8192 0)
   \<and> 4096 \<le> length (replicate 8192 (0 :: byte))
   \<and> length (replicate 4096 (0 :: byte)) = 4096
   \<and> tags_fit \<lparr>rom_files = [''two.z64'' \<mapsto> replicate 8192 0], data_files = Map.empty\<rparr>
   \<and> (\<forall>c x y. MD5Update counting_md5 (MD5Update counting_md5 c x) y =
                MD5Update counting_md5 c (x @ y))
   \<and> header_md5s (events (n64_rom_tx counting_md5
        \<lparr>rom_files = [''two.z64'' \<mapsto> replicate 8192 0], data_files = Map.empty\<rparr>
        ''two.z64'' 0 status_all_zero (replicate 4096 0))) =
      [''01010101010101010101010101010101'']
   \<and> file_md5s (events (n64_rom_tx counting_md5
        \<lparr>rom_files = [''two.z64'' \<mapsto> replicate 8192 0], data_files = Map.empty\<rparr>
        ''two.z64'' 0 status_all_zero (replicate 4096 0))) =
      [''02020202020202020202020202020202'']
   \<and> file_md5s (events (n64_rom_tx counting_md5
        \<lparr>rom_files = [''two.z64'' \<mapsto> replicate 8192 0], data_files = Map.empty\<rparr>
        ''two.z64'' 0 status_all_zero (replicate 4096 0))) =
      [md5_to_hex (fst (MD5Final counting_md5 (MD5Update counting_md5 (MD5Init counting_md5)
         (concat (sent_chunks (events (n64_rom_tx counting_md5
            \<lparr>rom_files = [''two.z64'' \<mapsto> replicate 8192 0], data_files = Map.empty\<rparr>
            ''two.z64'' 0 status_all_zero (replicate 4096 0))))))))]"
proof -
  let ?fs = "\<lparr>rom_files = [''two.z64'' \<mapsto> replicate 8192 0], data_files = Map.empty\<rparr>"
  let ?r = "n64_rom_tx counting_md5 ?fs ''two.z64'' 0 status_all_zero (replicate 4096 0)"
  have hom: "\<forall>c x y. MD5Update counting_md5 (MD5Update counting_md5 c x) y =
                MD5Update counting_md5 c (x @ y)"
    by simp
  have a: "rom_files ?fs ''two.z64'' = Some (replicate 8192 0)"
    by simp
  have l: "4096 \<le> length (replicate 8192 (0 :: byte))" by simp
  have b: "length (replicate 4096 (0 :: byte)) = 4096" by simp
  have tf: "tags_fit ?fs" by (rule tags_fit_no_data_files)
  note t = snapshot_leaves_stream_digest [OF a l b tf, of counting_md5 0 status_all_zero]
  from accepted_projections(2) [OF a l b, of counting_md5 0 status_all_zero]
  obtain cs where cs: "sent_chunks (events ?r) = header_chunk (replicate 8192 0) # cs"
    by blast
  have hl: "length (hd (sent_chunks (events ?r))) = 4096"
    by (simp add: cs length_header_chunk)
  have ls: "map length (sent_chunks (events ?r)) = [4096, 4096]"
    using accepted_chunk_lengths [OF a l b, of counting_md5 0 status_all_zero]
    by (simp add: numeral_2_eq_2)
  have h1: "header_md5s (events ?r) = [''01010101010101010101010101010101'']"
    using t hl by (simp add: hex_of_ones)
  have f1: "file_md5s (events ?r) = [''02020202020202020202020202020202'']"
    using t ls by (simp add: counting_md5_foldl hex_of_twos)
  from t hom a l b tf h1 f1 show ?thesis by blast
qed

subsection \<open>The order of the three paths\<close>

text \<open>
  C1, as the code has it. On every accepted source (at least 4096 bytes), with data
  files whose tag words fit the tag array, the three paths are tried in order and the
  first that succeeds is the only one that writes. If the search with the header digest finds a
  record, the store the run leaves and the writes it makes are those of that search,
  and no data file is opened after it. If it misses and the search with the file
  digest finds a record, the store and the writes are those of the second search, and
  the data files opened are those of the first search followed by those of the second.
  If both miss, the store and the writes are those of the heuristic resolver on the
  header evidence. Each path is taken from the store the run started in, since a
  search that misses writes nothing.
\<close>

theorem resolution_order:
  assumes "rom_files fs name = Some fdata" and "4096 \<le> length fdata" and "length b = 4096"
    and "tags_fit fs"
  shows
   "(fst (header_path ops fs fdata st) \<longrightarrow>
       final_cfg (n64_rom_tx ops fs name index st b) = fst (snd (header_path ops fs fdata st))
     \<and> status_writes (events (n64_rom_tx ops fs name index st b)) =
         status_writes (snd (snd (header_path ops fs fdata st)))
     \<and> data_files_opened (events (n64_rom_tx ops fs name index st b)) =
         data_files_opened (snd (snd (header_path ops fs fdata st))))
    \<and> (\<not> fst (header_path ops fs fdata st)
        \<and> fst (file_path ops fs (sent_chunks (events (n64_rom_tx ops fs name index st b))) st) \<longrightarrow>
       final_cfg (n64_rom_tx ops fs name index st b) =
         fst (snd (file_path ops fs (sent_chunks (events (n64_rom_tx ops fs name index st b))) st))
     \<and> status_writes (events (n64_rom_tx ops fs name index st b)) =
         status_writes (snd (snd
           (file_path ops fs (sent_chunks (events (n64_rom_tx ops fs name index st b))) st)))
     \<and> data_files_opened (events (n64_rom_tx ops fs name index st b)) =
         data_files_opened (snd (snd (header_path ops fs fdata st)))
         @ data_files_opened (snd (snd
             (file_path ops fs (sent_chunks (events (n64_rom_tx ops fs name index st b))) st))))
    \<and> (\<not> fst (header_path ops fs fdata st)
        \<and> \<not> fst (file_path ops fs (sent_chunks (events (n64_rom_tx ops fs name index st b))) st) \<longrightarrow>
       final_cfg (n64_rom_tx ops fs name index st b) = fst (snd (heuristic_path fdata st))
     \<and> status_writes (events (n64_rom_tx ops fs name index st b)) =
         status_writes (snd (snd (heuristic_path fdata st)))
     \<and> data_files_opened (events (n64_rom_tx ops fs name index st b)) =
         data_files_opened (snd (snd (header_path ops fs fdata st)))
         @ data_files_opened (snd (snd
             (file_path ops fs (sent_chunks (events (n64_rom_tx ops fs name index st b))) st))))"
  by (simp add: accepted_projections(6,7,8) [OF assms(1,2,3)])

subsection \<open>The record \<^verbatim>\<open>sram32k|rpak\<close>\<close>

lemma normalize_sram32k: "normalizeString ''sram32k'' = ''sram32k''"
  by code_simp

lemma normalize_rpak: "normalizeString ''rpak'' = ''rpak''"
  by code_simp

lemma apply_tag_sram32k:
  "apply_tag ''sram32k'' p = (p\<lparr>save_type := SRAM_32k\<rparr>, [Printf (TagLine ''sram32k'')])"
  by (simp add: apply_tag_def normalize_sram32k tag_cases_def fnv_eval)

lemma apply_tag_rpak:
  "apply_tag ''rpak'' p = (p\<lparr>rpak := True\<rparr>, [Printf (TagLine ''rpak'')])"
  by (simp add: apply_tag_def normalize_rpak tag_cases_def fnv_eval)

lemma second_word_ones:
  "sscanf_second_word ''01010101010101010101010101010101 sram32k|rpak'' = Some ''sram32k|rpak''"
  by (simp add: sscanf_second_word_def isspace_def)

lemma second_word_twos:
  "sscanf_second_word ''02020202020202020202020202020202 sram32k|rpak'' = Some ''sram32k|rpak''"
  by (simp add: sscanf_second_word_def isspace_def)

lemma strtok_sram32k_rpak: "strtok_all ''sram32k|rpak'' = [''sram32k'', ''rpak'']"
  by (simp add: strtok_all_def)

lemma record_writes_ones:
  "status_writes (snd (snd (detect_rom_settings_in_dbs fs_header_record
      ''01010101010101010101010101010101'' status_all_zero))) =
   [(''[80:79]'', 0), (''[68:65]'', 1), (''[71]'', 0), (''[72]'', 1), (''[73]'', 0),
    (''[74]'', 0), (''[77:75]'', 3)]"
  by (simp add: detect_rom_settings_in_dbs_def DB_FILE_NAMES_def detect_rom_settings_in_db_def
      fs_header_record_def second_word_ones strtok_sram32k_rpak apply_tag_sram32k apply_tag_rpak
      all_zero_flag_on default_profile_def status_writes_append status_writes_set_events
      profile_writes_def bool_u32_def)

lemma record_writes_twos:
  "status_writes (snd (snd (detect_rom_settings_in_dbs fs_file_record
      ''02020202020202020202020202020202'' status_all_zero))) =
   [(''[80:79]'', 0), (''[68:65]'', 1), (''[71]'', 0), (''[72]'', 1), (''[73]'', 0),
    (''[74]'', 0), (''[77:75]'', 3)]"
  by (simp add: detect_rom_settings_in_dbs_def DB_FILE_NAMES_def detect_rom_settings_in_db_def
      fs_file_record_def second_word_twos strtok_sram32k_rpak apply_tag_sram32k apply_tag_rpak
      all_zero_flag_on default_profile_def status_writes_append status_writes_set_events
      profile_writes_def bool_u32_def)

lemma normalize_eeprom512: "normalizeString ''eeprom512'' = ''eeprom512''"
  by code_simp

lemma normalize_cpak: "normalizeString ''cpak'' = ''cpak''"
  by code_simp

lemma apply_tag_eeprom512:
  "apply_tag ''eeprom512'' p = (p\<lparr>save_type := EEPROM_512\<rparr>, [Printf (TagLine ''eeprom512'')])"
  by (simp add: apply_tag_def normalize_eeprom512 tag_cases_def fnv_eval)

lemma apply_tag_cpak:
  "apply_tag ''cpak'' p = (p\<lparr>cpak := True\<rparr>, [Printf (TagLine ''cpak'')])"
  by (simp add: apply_tag_def normalize_cpak tag_cases_def fnv_eval)

lemma second_word_twos_eeprom:
  "sscanf_second_word ''02020202020202020202020202020202 eeprom512|cpak'' =
     Some ''eeprom512|cpak''"
  by (simp add: sscanf_second_word_def isspace_def)

lemma strtok_eeprom512_cpak: "strtok_all ''eeprom512|cpak'' = [''eeprom512'', ''cpak'']"
  by (simp add: strtok_all_def)

lemma both_writes_ones:
  "status_writes (snd (snd (detect_rom_settings_in_dbs fs_both_records
      ''01010101010101010101010101010101'' status_all_zero))) =
   [(''[80:79]'', 0), (''[68:65]'', 1), (''[71]'', 0), (''[72]'', 1), (''[73]'', 0),
    (''[74]'', 0), (''[77:75]'', 3)]"
  by (simp add: detect_rom_settings_in_dbs_def DB_FILE_NAMES_def detect_rom_settings_in_db_def
      fs_both_records_def second_word_ones strtok_sram32k_rpak apply_tag_sram32k apply_tag_rpak
      all_zero_flag_on default_profile_def status_writes_append status_writes_set_events
      profile_writes_def bool_u32_def)

lemma both_writes_twos:
  "status_writes (snd (snd (detect_rom_settings_in_dbs fs_both_records
      ''02020202020202020202020202020202'' status_all_zero))) =
   [(''[80:79]'', 0), (''[68:65]'', 1), (''[71]'', 1), (''[72]'', 0), (''[73]'', 0),
    (''[74]'', 0), (''[77:75]'', 1)]"
  by (simp add: detect_rom_settings_in_dbs_def DB_FILE_NAMES_def detect_rom_settings_in_db_def
      fs_both_records_def second_word_twos_eeprom strtok_eeprom512_cpak apply_tag_eeprom512
      apply_tag_cpak all_zero_flag_on default_profile_def status_writes_append
      status_writes_set_events profile_writes_def bool_u32_def)

lemma both_found:
  "fst (detect_rom_settings_in_dbs fs_both_records ''01010101010101010101010101010101'' st)"
  "fst (detect_rom_settings_in_dbs fs_both_records ''02020202020202020202020202020202'' st)"
  by (simp_all add: dbs_found DB_FILE_NAMES_def fs_both_records_def line_matches_def
      second_word_ones second_word_twos_eeprom)

lemma tags_fit_examples:
  "tags_fit fs_header_record" "tags_fit fs_file_record" "tags_fit fs_no_record"
  "tags_fit fs_both_records"
  by (simp_all add: tags_fit_def DB_FILE_NAMES_def tag_word_fits_def fs_header_record_def
      fs_file_record_def fs_no_record_def fs_both_records_def second_word_ones second_word_twos
      second_word_twos_eeprom)

lemma empty_run:
  assumes "rom_files fs name = Some []"
  shows "n64_rom_tx ops fs name index st b =
    tx_finish ops fs name
      \<lparr>bytes2send = 0, is_first_chunk = True, rom_found_in_db = False, rom_format = UNKNOWN,
       ctx = MD5Init ops, ipl3_crc = 0, cart_id = [], region_code = CHR 0x00, revision = 0,
       buf = b, cfg = st,
       out = [Printf (FileToSend name 0 index), SetIndex index, SetDownload True,
              ProgressReset, ProcessSS name]\<rparr>"
  using assms
  by (simp add: n64_rom_tx_def Let_def) (subst tx_loop.simps, simp)

lemma hex_of_zeros: "md5_to_hex (replicate 16 0) = ''00000000000000000000000000000000''"
  by code_simp

lemma second_word_zeros:
  "sscanf_second_word ''00000000000000000000000000000000 sram32k|rpak'' = Some ''sram32k|rpak''"
  by (simp add: sscanf_second_word_def isspace_def)

lemma empty_source_search:
  "detect_rom_settings_in_dbs fs_empty_source ''00000000000000000000000000000000''
     status_all_zero =
   (True, status_sets (profile_writes (default_profile\<lparr>save_type := SRAM_32k, rpak := True\<rparr>))
            status_all_zero,
    [OpenTextReader ''N64-database.txt'',
     Printf (FoundRomEntry ''00000000000000000000000000000000 sram32k|rpak''),
     Printf (TagLine ''sram32k''), Printf (TagLine ''rpak''),
     Printf (SettingsLine NTSC SRAM_32k CIC_NUS_6102 False True False False),
     Printf AutoDetectOn]
    @ set_events (profile_writes (default_profile\<lparr>save_type := SRAM_32k, rpak := True\<rparr>)))"
  by (simp add: detect_rom_settings_in_dbs_def DB_FILE_NAMES_def detect_rom_settings_in_db_def
      fs_empty_source_def second_word_zeros strtok_sram32k_rpak apply_tag_sram32k apply_tag_rpak
      all_zero_flag_on default_profile_def)

lemma found_ones:
  "fst (detect_rom_settings_in_dbs fs_header_record ''01010101010101010101010101010101'' st)"
  by (simp add: dbs_found DB_FILE_NAMES_def fs_header_record_def line_matches_def
      second_word_ones)

lemma found_twos:
  "fst (detect_rom_settings_in_dbs fs_file_record ''02020202020202020202020202020202'' st)"
  by (simp add: dbs_found DB_FILE_NAMES_def fs_file_record_def line_matches_def
      second_word_twos)

lemma not_found_ones_in_twos:
  "\<not> fst (detect_rom_settings_in_dbs fs_file_record ''01010101010101010101010101010101'' st)"
  by (simp add: dbs_found DB_FILE_NAMES_def fs_file_record_def line_matches_def)

lemma not_found_no_record: "\<not> fst (detect_rom_settings_in_dbs fs_no_record h st)"
  by (simp add: fs_no_record_def no_data_files_miss)


theorem resolution_order_witness:
  "rom_files fs_header_record ''a.z64'' = Some (replicate 4096 0)
   \<and> rom_files fs_file_record ''b.z64'' = Some (replicate 8192 0)
   \<and> rom_files fs_no_record ''c.z64'' = Some (replicate 4096 0)
   \<and> rom_files fs_both_records ''d.z64'' = Some (replicate 8192 0)
   \<and> 4096 \<le> length (replicate 4096 (0 :: byte)) \<and> 4096 \<le> length (replicate 8192 (0 :: byte))
   \<and> length (replicate 4096 (0 :: byte)) = 4096
   \<and> tags_fit fs_header_record \<and> tags_fit fs_file_record \<and> tags_fit fs_no_record
   \<and> tags_fit fs_both_records
   \<and> fst (header_path counting_md5 fs_header_record (replicate 4096 0) status_all_zero)
   \<and> status_writes (events (n64_rom_tx counting_md5 fs_header_record ''a.z64'' 0
        status_all_zero (replicate 4096 0))) =
      [(''[80:79]'', 0), (''[68:65]'', 1), (''[71]'', 0), (''[72]'', 1), (''[73]'', 0),
       (''[74]'', 0), (''[77:75]'', 3)]
   \<and> \<not> fst (header_path counting_md5 fs_file_record (replicate 8192 0) status_all_zero)
   \<and> fst (file_path counting_md5 fs_file_record
        (sent_chunks (events (n64_rom_tx counting_md5 fs_file_record ''b.z64'' 0
           status_all_zero (replicate 4096 0)))) status_all_zero)
   \<and> status_writes (events (n64_rom_tx counting_md5 fs_file_record ''b.z64'' 0
        status_all_zero (replicate 4096 0))) =
      [(''[80:79]'', 0), (''[68:65]'', 1), (''[71]'', 0), (''[72]'', 1), (''[73]'', 0),
       (''[74]'', 0), (''[77:75]'', 3)]
   \<and> \<not> fst (header_path counting_md5 fs_no_record (replicate 4096 0) status_all_zero)
   \<and> \<not> fst (file_path counting_md5 fs_no_record
        (sent_chunks (events (n64_rom_tx counting_md5 fs_no_record ''c.z64'' 0
           status_all_zero (replicate 4096 0)))) status_all_zero)
   \<and> status_writes (events (n64_rom_tx counting_md5 fs_no_record ''c.z64'' 0
        status_all_zero (replicate 4096 0))) =
      status_writes (snd (snd (heuristic_path (replicate 4096 0) status_all_zero)))
   \<and> fst (header_path counting_md5 fs_both_records (replicate 8192 0) status_all_zero)
   \<and> fst (file_path counting_md5 fs_both_records
        (sent_chunks (events (n64_rom_tx counting_md5 fs_both_records ''d.z64'' 0
           status_all_zero (replicate 4096 0)))) status_all_zero)
   \<and> status_writes (snd (snd (file_path counting_md5 fs_both_records
        (sent_chunks (events (n64_rom_tx counting_md5 fs_both_records ''d.z64'' 0
           status_all_zero (replicate 4096 0)))) status_all_zero))) =
      [(''[80:79]'', 0), (''[68:65]'', 1), (''[71]'', 1), (''[72]'', 0), (''[73]'', 0),
       (''[74]'', 0), (''[77:75]'', 1)]
   \<and> status_writes (events (n64_rom_tx counting_md5 fs_both_records ''d.z64'' 0
        status_all_zero (replicate 4096 0))) =
      [(''[80:79]'', 0), (''[68:65]'', 1), (''[71]'', 0), (''[72]'', 1), (''[73]'', 0),
       (''[74]'', 0), (''[77:75]'', 3)]"
proof -
  let ?z1 = "replicate 4096 (0 :: byte)" and ?z2 = "replicate 8192 (0 :: byte)"
  let ?rA = "n64_rom_tx counting_md5 fs_header_record ''a.z64'' 0 status_all_zero ?z1"
  let ?rB = "n64_rom_tx counting_md5 fs_file_record ''b.z64'' 0 status_all_zero ?z1"
  let ?rC = "n64_rom_tx counting_md5 fs_no_record ''c.z64'' 0 status_all_zero ?z1"
  let ?rD = "n64_rom_tx counting_md5 fs_both_records ''d.z64'' 0 status_all_zero ?z1"
  have oD: "rom_files fs_both_records ''d.z64'' = Some ?z2"
    by (simp add: fs_both_records_def)
  have oA: "rom_files fs_header_record ''a.z64'' = Some ?z1"
    by (simp add: fs_header_record_def)
  have oB: "rom_files fs_file_record ''b.z64'' = Some ?z2"
    by (simp add: fs_file_record_def)
  have oC: "rom_files fs_no_record ''c.z64'' = Some ?z1"
    by (simp add: fs_no_record_def)
  have l1: "4096 \<le> length ?z1" and l2: "4096 \<le> length ?z2" and b: "length ?z1 = 4096"
    by simp_all
  note tf = tags_fit_examples
  note tA = resolution_order [OF oA l1 b tf(1), of counting_md5 status_all_zero 0]
  note tB = resolution_order [OF oB l2 b tf(2), of counting_md5 status_all_zero 0]
  note tC = resolution_order [OF oC l1 b tf(3), of counting_md5 status_all_zero 0]
  note tD = resolution_order [OF oD l2 b tf(4), of counting_md5 status_all_zero 0]
  have hD: "fst (header_path counting_md5 fs_both_records ?z2 status_all_zero)"
    by (simp add: header_path_def counting_header_hex both_found)
  have wD: "status_writes (snd (snd (header_path counting_md5 fs_both_records ?z2
        status_all_zero))) =
      [(''[80:79]'', 0), (''[68:65]'', 1), (''[71]'', 0), (''[72]'', 1), (''[73]'', 0),
       (''[74]'', 0), (''[77:75]'', 3)]"
    by (simp add: header_path_def counting_header_hex both_writes_ones)
  have lsD: "map length (sent_chunks (events ?rD)) = [4096, 4096]"
    using accepted_chunk_lengths [OF oD l2 b, of counting_md5 0 status_all_zero]
    by (simp add: numeral_2_eq_2)
  have fD: "fst (file_path counting_md5 fs_both_records (sent_chunks (events ?rD))
        status_all_zero)"
    by (simp add: file_path_def counting_stream_hex_8192 [OF lsD] both_found)
  have vD: "status_writes (snd (snd (file_path counting_md5 fs_both_records
        (sent_chunks (events ?rD)) status_all_zero))) =
      [(''[80:79]'', 0), (''[68:65]'', 1), (''[71]'', 1), (''[72]'', 0), (''[73]'', 0),
       (''[74]'', 0), (''[77:75]'', 1)]"
    by (simp add: file_path_def counting_stream_hex_8192 [OF lsD] both_writes_twos)
  from tD hD wD have D: "status_writes (events ?rD) =
      [(''[80:79]'', 0), (''[68:65]'', 1), (''[71]'', 0), (''[72]'', 1), (''[73]'', 0),
       (''[74]'', 0), (''[77:75]'', 3)]"
    by simp
  have hA: "fst (header_path counting_md5 fs_header_record ?z1 status_all_zero)"
    by (simp add: header_path_def counting_header_hex found_ones)
  have wA: "status_writes (snd (snd (header_path counting_md5 fs_header_record ?z1
        status_all_zero))) =
      [(''[80:79]'', 0), (''[68:65]'', 1), (''[71]'', 0), (''[72]'', 1), (''[73]'', 0),
       (''[74]'', 0), (''[77:75]'', 3)]"
    by (simp add: header_path_def counting_header_hex record_writes_ones)
  have hB: "\<not> fst (header_path counting_md5 fs_file_record ?z2 status_all_zero)"
    by (simp add: header_path_def counting_header_hex not_found_ones_in_twos)
  have lsB: "map length (sent_chunks (events ?rB)) = [4096, 4096]"
    using accepted_chunk_lengths [OF oB l2 b, of counting_md5 0 status_all_zero]
    by (simp add: numeral_2_eq_2)
  have fB: "fst (file_path counting_md5 fs_file_record (sent_chunks (events ?rB)) status_all_zero)"
    by (simp add: file_path_def counting_stream_hex_8192 [OF lsB] found_twos)
  have wB: "status_writes (snd (snd (file_path counting_md5 fs_file_record
        (sent_chunks (events ?rB)) status_all_zero))) =
      [(''[80:79]'', 0), (''[68:65]'', 1), (''[71]'', 0), (''[72]'', 1), (''[73]'', 0),
       (''[74]'', 0), (''[77:75]'', 3)]"
    by (simp add: file_path_def counting_stream_hex_8192 [OF lsB] record_writes_twos)
  have hC: "\<not> fst (header_path counting_md5 fs_no_record ?z1 status_all_zero)"
    by (simp add: header_path_def not_found_no_record)
  have fC: "\<not> fst (file_path counting_md5 fs_no_record (sent_chunks (events ?rC)) status_all_zero)"
    by (simp add: file_path_def not_found_no_record)
  from tA hA wA have A: "status_writes (events ?rA) =
      [(''[80:79]'', 0), (''[68:65]'', 1), (''[71]'', 0), (''[72]'', 1), (''[73]'', 0),
       (''[74]'', 0), (''[77:75]'', 3)]"
    by simp
  from tB hB fB wB have B: "status_writes (events ?rB) =
      [(''[80:79]'', 0), (''[68:65]'', 1), (''[71]'', 0), (''[72]'', 1), (''[73]'', 0),
       (''[74]'', 0), (''[77:75]'', 3)]"
    by simp
  from tC hC fC have C: "status_writes (events ?rC) =
      status_writes (snd (snd (heuristic_path ?z1 status_all_zero)))"
    by simp
  from oA oB oC oD l1 l2 b tf hA A hB fB B hC fC C hD fD vD D show ?thesis by blast
qed

text \<open>
  C1 as stated fails on a source that is not accepted. On an empty source the loop body
  is not entered: no header digest is computed and the data files are not searched
  with one. The first and only search is the one with the file digest, and the record
  it finds is used. (A source of 1 to 4095 bytes is refused before any path is tried.)
\<close>

theorem empty_source_skips_header_search:
  "returned (n64_rom_tx counting_md5 fs_empty_source ''e.z64'' 0 status_all_zero
      (replicate 4096 0)) = Some 1
   \<and> header_md5s (events (n64_rom_tx counting_md5 fs_empty_source ''e.z64'' 0 status_all_zero
        (replicate 4096 0))) = []
   \<and> file_md5s (events (n64_rom_tx counting_md5 fs_empty_source ''e.z64'' 0 status_all_zero
        (replicate 4096 0))) = [''00000000000000000000000000000000'']
   \<and> data_files_opened (events (n64_rom_tx counting_md5 fs_empty_source ''e.z64'' 0
        status_all_zero (replicate 4096 0))) = [''N64-database.txt'']
   \<and> status_writes (events (n64_rom_tx counting_md5 fs_empty_source ''e.z64'' 0
        status_all_zero (replicate 4096 0))) =
      [(''[80:79]'', 0), (''[68:65]'', 1), (''[71]'', 0), (''[72]'', 1), (''[73]'', 0),
       (''[74]'', 0), (''[77:75]'', 3)]"
proof -
  have o: "rom_files fs_empty_source ''e.z64'' = Some []"
    by (simp add: fs_empty_source_def)
  show ?thesis
    unfolding empty_run [OF o]
    by (simp add: tx_finish_def Let_def hex_of_zeros empty_source_search
        status_writes_append status_writes_set_events profile_writes_def default_profile_def
        bool_u32_def)
qed

subsection \<open>A checksum in no table entry\<close>

lemma heuristic_unknown_cic:
  assumes "\<forall>sys. cic_switch crc sys = None" and "user_io_status_get st ''[64]'' = 0"
  shows "detect_rom_settings_from_first_chunk cid r v crc st = (1, st, [])"
  using assms by (simp add: detect_rom_settings_from_first_chunk_def)

lemma heuristic_auto_detect_off:
  assumes "user_io_status_get st ''[64]'' \<noteq> 0"
  shows "detect_rom_settings_from_first_chunk cid r v crc st = (0, st, [Printf AutoDetectOff])"
  using assms by (simp add: detect_rom_settings_from_first_chunk_def)

text \<open>
  C3, as the code has it. On an accepted source for which both searches miss, whose
  checksum is in no entry of the CIC table, and with auto-detect on, the resolver
  returns 1 without an event, whatever the cartridge identifier, region code and
  revision; the run writes nothing to the configuration store and leaves it as it
  was, and the one notice it shows is the unknown-CIC notice.
\<close>

theorem unknown_cic_with_auto_detect_on:
  assumes "rom_files fs name = Some fdata" and "4096 \<le> length fdata" and "length b = 4096"
    and "\<not> fst (header_path ops fs fdata st)"
    and "\<not> fst (file_path ops fs (sent_chunks (events (n64_rom_tx ops fs name index st b))) st)"
    and "\<forall>sys. cic_switch (header_crc fdata) sys = None"
    and "user_io_status_get st ''[64]'' = 0"
  shows "detect_rom_settings_from_first_chunk cid r v (header_crc fdata) st = (1, st, [])
    \<and> heuristic_path fdata st = (1, st, [])
    \<and> status_writes (events (n64_rom_tx ops fs name index st b)) = []
    \<and> final_cfg (n64_rom_tx ops fs name index st b) = st
    \<and> notices (events (n64_rom_tx ops fs name index st b)) = [UnknownCICNotice]"
proof -
  have g: "heuristic_path fdata st = (1, st, [])"
    unfolding heuristic_path_def by (rule heuristic_unknown_cic [OF assms(6,7)])
  show ?thesis
    using assms(4,5) g heuristic_unknown_cic [OF assms(6,7), of cid r v]
    by (simp add: accepted_projections(6,7,9) [OF assms(1,2,3)])
qed

theorem unknown_cic_with_auto_detect_on_witness:
  "rom_files fs_no_record ''c.z64'' = Some (replicate 4096 0)
   \<and> 4096 \<le> length (replicate 4096 (0 :: byte)) \<and> length (replicate 4096 (0 :: byte)) = 4096
   \<and> \<not> fst (header_path counting_md5 fs_no_record (replicate 4096 0) status_all_zero)
   \<and> \<not> fst (file_path counting_md5 fs_no_record
        (sent_chunks (events (n64_rom_tx counting_md5 fs_no_record ''c.z64'' 0
           status_all_zero (replicate 4096 0)))) status_all_zero)
   \<and> (\<forall>sys. cic_switch (header_crc (replicate 4096 0)) sys = None)
   \<and> user_io_status_get status_all_zero ''[64]'' = 0
   \<and> status_writes (events (n64_rom_tx counting_md5 fs_no_record ''c.z64'' 0
        status_all_zero (replicate 4096 0))) = []
   \<and> notices (events (n64_rom_tx counting_md5 fs_no_record ''c.z64'' 0
        status_all_zero (replicate 4096 0))) = [UnknownCICNotice]"
proof -
  let ?z1 = "replicate 4096 (0 :: byte)"
  let ?rC = "n64_rom_tx counting_md5 fs_no_record ''c.z64'' 0 status_all_zero ?z1"
  have oC: "rom_files fs_no_record ''c.z64'' = Some ?z1"
    by (simp add: fs_no_record_def)
  have l1: "4096 \<le> length ?z1" and b: "length ?z1 = 4096"
    by simp_all
  have hC: "\<not> fst (header_path counting_md5 fs_no_record ?z1 status_all_zero)"
    by (simp add: header_path_def not_found_no_record)
  have fC: "\<not> fst (file_path counting_md5 fs_no_record (sent_chunks (events ?rC)) status_all_zero)"
    by (simp add: file_path_def not_found_no_record)
  have crc: "\<forall>sys. cic_switch (header_crc ?z1) sys = None"
    by (simp add: header_crc_zeros cic_switch_zero)
  from unknown_cic_with_auto_detect_on [OF oC l1 b hC fC crc all_zero_flag_on]
    oC l1 b hC fC crc all_zero_flag_on
  show ?thesis by blast
qed

text \<open>
  C3 as stated fails. With auto-detect off, on a source for which both searches miss
  and whose checksum is in no entry of the CIC table, the resolver returns 0 at its
  guard, and the run shows no notice.
\<close>

theorem unknown_cic_with_auto_detect_off:
  "\<not> fst (header_path counting_md5 fs_no_record (replicate 4096 0)
          (status_all_zero(''[64]'' := 1)))
   \<and> \<not> fst (file_path counting_md5 fs_no_record
        (sent_chunks (events (n64_rom_tx counting_md5 fs_no_record ''c.z64'' 0
           (status_all_zero(''[64]'' := 1)) (replicate 4096 0))))
        (status_all_zero(''[64]'' := 1)))
   \<and> cic_switch (header_crc (replicate 4096 0)) NTSC = None
   \<and> cic_switch (header_crc (replicate 4096 0)) PAL = None
   \<and> fst (heuristic_path (replicate 4096 0) (status_all_zero(''[64]'' := 1))) = 0
   \<and> notices (events (n64_rom_tx counting_md5 fs_no_record ''c.z64'' 0
        (status_all_zero(''[64]'' := 1)) (replicate 4096 0))) = []"
proof -
  let ?z1 = "replicate 4096 (0 :: byte)"
  let ?off = "status_all_zero(''[64]'' := 1)"
  let ?r = "n64_rom_tx counting_md5 fs_no_record ''c.z64'' 0 ?off ?z1"
  have oC: "rom_files fs_no_record ''c.z64'' = Some ?z1"
    by (simp add: fs_no_record_def)
  have l1: "4096 \<le> length ?z1" and b: "length ?z1 = 4096"
    by simp_all
  have hC: "\<not> fst (header_path counting_md5 fs_no_record ?z1 ?off)"
    by (simp add: header_path_def not_found_no_record)
  have fC: "\<not> fst (file_path counting_md5 fs_no_record (sent_chunks (events ?r)) ?off)"
    by (simp add: file_path_def not_found_no_record)
  have off: "user_io_status_get ?off ''[64]'' \<noteq> 0"
    by (simp add: user_io_status_get_def)
  have g: "heuristic_path ?z1 ?off = (0, ?off, [Printf AutoDetectOff])"
    unfolding heuristic_path_def by (rule heuristic_auto_detect_off [OF off])
  have n: "notices (events ?r) = []"
    using hC fC g by (simp add: accepted_projections(9) [OF oC l1 b])
  from hC fC g n show ?thesis
    by (simp add: header_crc_zeros cic_switch_zero)
qed

end
